theory Spec2Isabelle
  imports Main "HOL-Library.Word" "HOL-Library.Sublist"
begin

section \<open>The governance contract (src/contracts/DAO.sol)\<close>

text \<open>
  The contract is embedded as a state record and one function per external entry point.
  A call either reverts (\<open>Inl\<close>, storage untouched) or returns the storage after the
  call (\<open>Inr\<close>). \<open>uint256\<close> is a 256-bit word; Solidity 0.8 arithmetic is checked, so an
  increment that would wrap is a panic, not a wrap-around. The Ether balance of the
  contract and \<open>withdraw\<close> are not part of the embedding. The entry points carry the
  prefix \<open>Dao_\<close>, the contract's name, since the client has functions of the same names.
\<close>

type_synonym address = "160 word"
type_synonym uint256 = "256 word"

datatype revert = Revert string | Panic

datatype Vote = yay | nay

(* struct user { bool isMember; } *)
record user =
  isMember :: bool

(* struct Proposal of DAO.sol; the fields carry the prefix s_ (storage), since the
   client's Proposal interface below has fields of the same names. *)
record Proposal_storage =
  s_yayVotes :: uint256
  s_nayVotes :: uint256
  s_deadline :: uint256
  s_user :: address
  s_lotSize :: uint256
  s_SharePrice :: uint256
  s_maxPerInvestor :: uint256
  s_proposalSummary :: string
  s_executed :: bool
  s_voted :: "address \<Rightarrow> bool"

datatype event =
    joinedDao address
  | proposalCreated uint256 address
  | proposalVoted uint256 address

record Dao =
  owner :: address
  addressToUser :: "address \<Rightarrow> user"
  numProposal :: uint256
  idToProposal :: "uint256 \<Rightarrow> Proposal_storage"
  membership :: uint256
  duration :: uint256
  events :: "event list"

(* msg.sender, msg.value *)
record msg =
  sender :: address
  val :: uint256

(* Storage of a slot never written: every field is zero. *)
definition zero_Proposal :: Proposal_storage where
  "zero_Proposal = \<lparr> s_yayVotes = 0, s_nayVotes = 0, s_deadline = 0, s_user = 0,
     s_lotSize = 0, s_SharePrice = 0, s_maxPerInvestor = 0, s_proposalSummary = [],
     s_executed = False, s_voted = (\<lambda>_. False) \<rparr>"

(* constructor() Ownable(msg.sender); membership = 0.1 ether; duration = 7 days *)
definition deploy :: "address \<Rightarrow> Dao" where
  "deploy deployer = \<lparr> owner = deployer, addressToUser = (\<lambda>_. \<lparr> isMember = False \<rparr>),
     numProposal = 0, idToProposal = (\<lambda>_. zero_Proposal),
     membership = 100000000000000000, duration = 604800, events = [] \<rparr>"

(* checked addition of Solidity 0.8 *)
definition checked_add :: "uint256 \<Rightarrow> uint256 \<Rightarrow> revert + uint256" where
  "checked_add a b = (if unat a + unat b < 2 ^ 256 then Inr (a + b) else Inl Panic)"

(* modifier onlyMember *)
definition onlyMember :: "msg \<Rightarrow> Dao \<Rightarrow> bool" where
  "onlyMember m s = (isMember (addressToUser s (sender m)) = True)"

definition Dao_join :: "msg \<Rightarrow> Dao \<Rightarrow> revert + Dao" where
  "Dao_join m s =
     (if val m = membership s
      then Inr (s\<lparr> addressToUser := (addressToUser s)(sender m := \<lparr> isMember = True \<rparr>) \<rparr>)
      else Inl (Revert []))"

(* returns the new proposal id and the storage *)
definition Dao_createProposal ::
  "msg \<Rightarrow> uint256 \<Rightarrow> uint256 \<Rightarrow> uint256 \<Rightarrow> uint256 \<Rightarrow> string \<Rightarrow> Dao \<Rightarrow> revert + (uint256 \<times> Dao)" where
  "Dao_createProposal m block_timestamp lotSize SharePrice maxPerInvestor proposalSummary s =
     (if \<not> onlyMember m s then Inl (Revert ''not a member of pool'')
      else case checked_add (numProposal s) 1 of
        Inl e \<Rightarrow> Inl e
      | Inr n \<Rightarrow>
         (case checked_add block_timestamp (duration s) of
            Inl e \<Rightarrow> Inl e
          | Inr d \<Rightarrow>
             Inr (n, s\<lparr> numProposal := n,
                        idToProposal := (idToProposal s)(n := (idToProposal s n)
                          \<lparr> s_deadline := d, s_user := sender m, s_lotSize := lotSize,
                            s_SharePrice := SharePrice, s_maxPerInvestor := maxPerInvestor,
                            s_proposalSummary := proposalSummary \<rparr>),
                        events := events s @ [proposalCreated n (sender m)] \<rparr>)))"

definition Dao_voteProposal :: "msg \<Rightarrow> uint256 \<Rightarrow> uint256 \<Rightarrow> Vote \<Rightarrow> Dao \<Rightarrow> revert + Dao" where
  "Dao_voteProposal m block_timestamp proposalId vote s =
     (let proposal = idToProposal s proposalId in
      if \<not> onlyMember m s then Inl (Revert ''not a member of pool'')
      else if \<not> (s_deadline (idToProposal s proposalId) > block_timestamp)
        then Inl (Revert ''deadline exceeded'')
      else if s_voted proposal (sender m) then Inl (Revert ''already voted'')
      else case (if vote = yay then checked_add (s_yayVotes proposal) 1
                 else Inr (s_yayVotes proposal)) of
        Inl e \<Rightarrow> Inl e
      | Inr y \<Rightarrow>
         (case (if vote = nay then checked_add (s_nayVotes proposal) 1
                else Inr (s_nayVotes proposal)) of
            Inl e \<Rightarrow> Inl e
          | Inr n \<Rightarrow>
             Inr (s\<lparr> idToProposal := (idToProposal s)(proposalId := proposal
                          \<lparr> s_yayVotes := y, s_nayVotes := n,
                            s_voted := (s_voted proposal)(sender m := True) \<rparr>),
                      events := events s @ [proposalVoted (numProposal s) (sender m)] \<rparr>)))"

definition Dao_executeProposal :: "msg \<Rightarrow> uint256 \<Rightarrow> Dao \<Rightarrow> revert + Dao" where
  "Dao_executeProposal m proposalId s =
     (if \<not> onlyMember m s then Inl (Revert ''not a member of pool'')
      else if \<not> (\<not> s_executed (idToProposal s proposalId))
        then Inl (Revert ''proposal already executed'')
      else Inr (s\<lparr> idToProposal := (idToProposal s)(numProposal s :=
                      (idToProposal s (numProposal s))\<lparr> s_executed := True \<rparr>) \<rparr>))"

(* A storage with two proposals, created by member 1 at time 1000; used by the witnesses. *)
definition two_proposals :: Dao where
  "two_proposals =
     (deploy 7)\<lparr> addressToUser := (\<lambda>a. \<lparr> isMember = (a = 1) \<rparr>),
                 numProposal := 2,
                 idToProposal := (\<lambda>i. if i = 1 \<or> i = 2
                    then zero_Proposal\<lparr> s_deadline := 605800, s_user := 1 \<rparr>
                    else zero_Proposal),
                 events := [proposalCreated 1 1, proposalCreated 2 1] \<rparr>"

section \<open>The client: values, errors and effects\<close>

text \<open>
  The TypeScript modules are embedded as functions of a \<open>world\<close> (what the wallet, the
  chain node and the hosted store answer) and of a \<open>client\<close> state (the module-level
  \<open>signer\<close> and \<open>provider\<close> of daoUtils.ts, the two mirror tables, the state of the DAO
  page, and a trace of every effect performed). An \<open>async\<close> function that may throw is a
  state transformer returning \<open>Inl\<close> of the thrown error or \<open>Inr\<close> of its value; \<open>await\<close>
  is sequencing.

  JavaScript numbers and bigints that hold ids, counts, gas and timestamps are integers
  here (\<open>int\<close>, or \<open>nat\<close> for the unsigned quantities the node returns); the embedding
  does not model the loss of precision of numbers beyond \<open>2^53\<close>. A \<open>Date\<close> and the ISO
  string of a timestamp column are the milliseconds since the epoch. A string that may be
  \<open>undefined\<close> in an error object is the empty string here: the source reads these
  fields only through \<open>||\<close>, \<open>&&\<close> and \<open>?.includes\<close>, which treat both alike.
\<close>

subsection \<open>Strings\<close>

(* String.prototype.includes *)
fun str_includes :: "string \<Rightarrow> string \<Rightarrow> bool" where
  "str_includes [] needle = (needle = [])"
| "str_includes (c # cs) needle = (prefix needle (c # cs) \<or> str_includes cs needle)"

(* String.prototype.toLowerCase, on the ASCII letters (addresses are hexadecimal ASCII) *)
definition lower_char :: "char \<Rightarrow> char" where
  "lower_char c =
     (case map_of (zip ''ABCDEFGHIJKLMNOPQRSTUVWXYZ'' ''abcdefghijklmnopqrstuvwxyz'') c of
        Some l \<Rightarrow> l
      | None \<Rightarrow> c)"

definition toLowerCase :: "string \<Rightarrow> string" where
  "toLowerCase str = map lower_char str"

(* decimal rendering of an integer, as a template literal or toString() gives it *)
definition digit_char :: "nat \<Rightarrow> char" where
  "digit_char d = ''0123456789'' ! d"

fun digits :: "nat \<Rightarrow> string" where
  "digits n = (if n < 10 then [digit_char n]
               else digits (n div 10) @ [digit_char (n mod 10)])"

declare digits.simps [simp del]

definition toString :: "int \<Rightarrow> string" where
  "toString i = (if i < 0 then CHR ''-'' # digits (nat (- i)) else digits (nat i))"

subsection \<open>Errors\<close>

(* The fields of a thrown value that the source reads. *)
record jserror =
  reason :: string
  shortMessage :: string
  message :: string
  code :: string
  data :: string
  error_message :: string        (* error.error.message *)
  data_message :: string         (* error.data.message *)
  info_error_message :: string   (* error.info.error.message *)
  instanceof_Error :: bool       (* error instanceof Error *)

(* new Error(msg) *)
definition Error :: "string \<Rightarrow> jserror" where
  "Error msg = \<lparr> reason = [], shortMessage = [], message = msg, code = [], data = [],
     error_message = [], data_message = [], info_error_message = [],
     instanceof_Error = True \<rparr>"

(* a || b on strings *)
definition or_else :: "string \<Rightarrow> string \<Rightarrow> string" where
  "or_else a b = (if a \<noteq> [] then a else b)"

subsection \<open>Handles and answers of the wallet and of ethers\<close>

datatype signer = JsonRpcSigner string
datatype provider = BrowserProvider | JsonRpcProvider string
datatype contract = Contract_signer signer | Contract_provider provider

(* a state-changing call of the DAO or token contract, with its arguments *)
datatype call =
    Join nat
  | CreateProposal int int int string
  | VoteProposal int int
  | ExecuteProposal int
  | BuyLot
  | MintToSelf nat
  | Approve nat

(* what contract.addressToUser(address) may decode to *)
datatype abi_result =
    Res_struct bool        (* an object with an isMember property (its truthiness) *)
  | Res_bool bool          (* a bare boolean *)
  | Res_array "bool list"  (* an array (the truthiness of its elements) *)
  | Res_other              (* anything else *)

(* what contract.idToProposal(id) would decode to, had the contract a getter *)
record struct_read =
  r_yayVotes :: int
  r_nayVotes :: int
  r_deadline :: int
  r_user :: string
  r_lotSize :: int
  r_SharePrice :: int
  r_maxPerInvestor :: int
  r_proposalSummary :: string
  r_executed :: bool

(* what interface.parseLog makes of a log entry: the event's name and, when present, its
   arguments args[0] (as a number) and args[1] *)
record parsed_log =
  ev_name :: string
  ev_args :: "(int \<times> string) option"

(* a log entry: its block, and the outcome of interface.parseLog on it (a throw, null, or
   the parsed entry) *)
record log =
  blockNumber :: int
  parseLog :: "jserror + parsed_log option"

(* provider.getBlock(n): null, or a block with its timestamp *)
record block =
  timestamp :: int

record receipt =
  hash :: string
  logs :: "log list"

record tx =
  tx_hash :: string

datatype toast_kind = toast_success | toast_info | toast_warning | toast_error

datatype effect =
    Request string                  (* window.ethereum.request / provider.send *)
  | GetSigner
  | GetAddress
  | Read string                     (* a view call of a contract *)
  | EstimateGas call "nat option"   (* the estimate, None when it threw *)
  | GetFeeData
  | SendTx call nat nat             (* gas price, gas limit *)
  | Wait
  | QueryFilter
  | GetBlock int
  | DateNow
  | Supabase string
  | Sleep nat                       (* milliseconds *)
  | Toast toast_kind string

text \<open>
  The answers of the outside. Every answer may depend on the moment it is asked for: the
  argument of type \<open>nat\<close> is the number of effects performed so far.
\<close>

record world =
  ethereum_present :: bool                                (* window.ethereum != null *)
  eth_accounts :: "nat \<Rightarrow> jserror + string list"
  eth_chainId :: "nat \<Rightarrow> jserror + int"                   (* parseInt(chainId, 16) *)
  eth_requestAccounts :: "nat \<Rightarrow> jserror + unit"
  getSigner :: "nat \<Rightarrow> jserror + signer"
  getAddress :: "nat \<Rightarrow> signer \<Rightarrow> jserror + string"
  parseEther :: "string \<Rightarrow> jserror + nat"
  numProposal_call :: "nat \<Rightarrow> jserror + nat"
  addressToUser_call :: "nat \<Rightarrow> string \<Rightarrow> jserror + abi_result"
  idToProposal_error :: "nat \<Rightarrow> int \<Rightarrow> jserror"         (* what idToProposal(id) throws *)
  balanceOf_call :: "nat \<Rightarrow> string \<Rightarrow> jserror + nat"
  allowance_call :: "nat \<Rightarrow> string \<Rightarrow> jserror + nat"
  estimateGas :: "nat \<Rightarrow> call \<Rightarrow> jserror + nat"
  getFeeData :: "nat \<Rightarrow> jserror + nat option"          (* feeData.gasPrice, None for null *)
  sendTransaction :: "nat \<Rightarrow> call \<Rightarrow> nat \<Rightarrow> nat \<Rightarrow> jserror + tx"
  wait :: "nat \<Rightarrow> tx \<Rightarrow> jserror + receipt"
  queryFilter :: "nat \<Rightarrow> jserror + log list"
  getBlock :: "nat \<Rightarrow> int \<Rightarrow> jserror + block option"
  Date_now :: "nat \<Rightarrow> int"                               (* milliseconds *)
  supabase_error :: "nat \<Rightarrow> bool"                        (* the store answers with an error *)

subsection \<open>The mirror tables\<close>

record dao_members_row =
  wallet_address :: string
  is_member :: bool
  member_updated_at :: int

(* table dao_proposals; the columns deadline and executed carry the suffix _col since the
   Proposal interface has fields of these names *)
record dao_proposals_row =
  proposal_id :: int
  lot_size :: int
  share_price :: int
  max_per_investor :: int
  proposal_summary :: string
  creator_address :: string
  deadline_col :: int
  transaction_hash :: string
  yay_votes :: "int option"
  nay_votes :: "int option"
  executed_col :: "bool option"
  created_at :: int
  updated_at :: int

(* upsert with onConflict on a unique key column: the row with the key is replaced by the
   payload (which carries every column), or the payload is inserted *)
fun upsert :: "('r \<Rightarrow> 'k) \<Rightarrow> 'r \<Rightarrow> 'r list \<Rightarrow> 'r list" where
  "upsert key r [] = [r]"
| "upsert key r (x # xs) = (if key x = key r then r # xs else x # upsert key r xs)"

subsection \<open>The client state and the effect monad\<close>

record client =
  signer :: "signer option"           (* let signer, daoUtils.ts *)
  provider :: "provider option"       (* let provider, daoUtils.ts *)
  dao_members :: "dao_members_row list"
  dao_proposals :: "dao_proposals_row list"
  trace :: "effect list"
  isMember_state :: bool              (* useState isMember of DAOPage *)
  isConnected_state :: bool
  walletAddress_state :: string
  joiningDao_state :: bool
  loading_state :: bool
  justJoinedRef :: bool
  address_var :: "string option"      (* let address of handleJoinDao *)

type_synonym 'a io = "client \<Rightarrow> (jserror + 'a) \<times> client"

definition ret :: "'a \<Rightarrow> 'a io" where
  "ret x s = (Inr x, s)"

definition throw :: "jserror \<Rightarrow> 'a io" where
  "throw e s = (Inl e, s)"

definition bnd :: "'a io \<Rightarrow> ('a \<Rightarrow> 'b io) \<Rightarrow> 'b io" where
  "bnd m f s = (case m s of (Inl e, s') \<Rightarrow> (Inl e, s') | (Inr x, s') \<Rightarrow> f x s')"

(* try { m } catch (e) { h e } *)
definition try_catch :: "'a io \<Rightarrow> (jserror \<Rightarrow> 'a io) \<Rightarrow> 'a io" where
  "try_catch m h s = (case m s of (Inl e, s') \<Rightarrow> h e s' | (Inr x, s') \<Rightarrow> (Inr x, s'))"

(* try { m } finally { f }, for an f that does not throw or return *)
definition try_finally :: "'a io \<Rightarrow> unit io \<Rightarrow> 'a io" where
  "try_finally m f s = (case m s of (r, s') \<Rightarrow> (case f s' of (Inl e, s'') \<Rightarrow> (Inl e, s'')
                                                     | (Inr _, s'') \<Rightarrow> (r, s'')))"

definition modify :: "(client \<Rightarrow> client) \<Rightarrow> unit io" where
  "modify f s = (Inr (), f s)"

definition gets :: "(client \<Rightarrow> 'a) \<Rightarrow> 'a io" where
  "gets f s = (Inr (f s), s)"

(* perform an effect with no answer *)
definition emit :: "effect \<Rightarrow> unit io" where
  "emit e s = (Inr (), s\<lparr> trace := trace s @ [e] \<rparr>)"

(* perform an effect and take the world's answer at this moment *)
definition ask :: "(nat \<Rightarrow> jserror + 'a) \<Rightarrow> effect \<Rightarrow> 'a io" where
  "ask answer e s = (answer (length (trace s)), s\<lparr> trace := trace s @ [e] \<rparr>)"

(* Date.now() *)
definition now_ms :: "world \<Rightarrow> int io" where
  "now_ms w = ask (\<lambda>t. Inr (Date_now w t)) DateNow"

(* new Date(ms).toISOString(): a RangeError outside the range of Date *)
definition toISOString :: "int \<Rightarrow> int io" where
  "toISOString ms = (if \<bar>ms\<bar> \<le> 8640000000000000 then ret ms
                     else throw (Error ''Invalid time value''))"

(* an estimateGas call: the effect records the estimate *)
definition estimate :: "world \<Rightarrow> call \<Rightarrow> nat io" where
  "estimate w c s =
     (case estimateGas w (length (trace s)) c of
        Inl e \<Rightarrow> (Inl e, s\<lparr> trace := trace s @ [EstimateGas c None] \<rparr>)
      | Inr g \<Rightarrow> (Inr g, s\<lparr> trace := trace s @ [EstimateGas c (Some g)] \<rparr>))"

(* a send of a transaction with its gas price and gas limit *)
definition send :: "world \<Rightarrow> call \<Rightarrow> nat \<Rightarrow> nat \<Rightarrow> tx io" where
  "send w c gasPrice gasLimit =
     ask (\<lambda>t. sendTransaction w t c gasPrice gasLimit) (SendTx c gasPrice gasLimit)"

(* feeData.gasPrice || fallback: null and 0n are both falsy *)
definition gasPrice_or :: "nat option \<Rightarrow> nat \<Rightarrow> nat" where
  "gasPrice_or fee fallback = (case fee of None \<Rightarrow> fallback
                               | Some g \<Rightarrow> if g = 0 then fallback else g)"

(* if (address): neither null nor the empty string *)
definition present :: "string option \<Rightarrow> bool" where
  "present a = (case a of None \<Rightarrow> False | Some x \<Rightarrow> x \<noteq> [])"

(* the character U+2011 (non-breaking hyphen), in UTF-8 *)
definition nb_hyphen :: string where
  "nb_hyphen = [CHR 0xE2, CHR 0x80, CHR 0x91]"

(* parseUnits(n, "gwei") *)
definition gwei :: "nat \<Rightarrow> nat" where
  "gwei n = n * 1000000000"

section \<open>The membership mirror (src/lib/utils/daoMembership.ts)\<close>

(* the answer of a query of the hosted store: whether it carries an error; .single() is
   an error unless exactly one row matches *)
definition supabase :: "world \<Rightarrow> string \<Rightarrow> bool io" where
  "supabase w what = ask (\<lambda>t. Inr (supabase_error w t)) (Supabase what)"

definition getDaoMembership :: "world \<Rightarrow> string \<Rightarrow> bool io" where
  "getDaoMembership w walletAddress =
     try_catch
       (let normalizedAddress = toLowerCase walletAddress in
        bnd (supabase w ''select dao_members'') (\<lambda>err.
        bnd (gets dao_members) (\<lambda>rows.
          if err then ret False
          else (case filter (\<lambda>r. wallet_address r = normalizedAddress) rows of
                  [row] \<Rightarrow> ret (is_member row = True)
                | _ \<Rightarrow> ret False))))
       (\<lambda>_. ret False)"

definition setDaoMembership :: "world \<Rightarrow> string \<Rightarrow> bool \<Rightarrow> bool io" where
  "setDaoMembership w walletAddress isMember' =
     try_catch
       (let normalizedAddress = toLowerCase walletAddress in
        bnd (now_ms w) (\<lambda>now.
        bnd (supabase w ''upsert dao_members'') (\<lambda>err.
          if err then ret False
          else bnd (modify (\<lambda>s. s\<lparr> dao_members :=
                      upsert wallet_address
                        \<lparr> wallet_address = normalizedAddress, is_member = isMember',
                          member_updated_at = now \<rparr> (dao_members s) \<rparr>))
                 (\<lambda>_. ret True))))
       (\<lambda>_. ret False)"

section \<open>The proposal mirror (daoProposals.ts, src/unnamed/part_000)\<close>

datatype status = voting | closed | marketplace

(* interface Proposal of daoUtils.ts; the field id is id' here *)
record Proposal =
  id' :: string
  proposalId :: int
  lotSize :: int
  sharePrice :: int
  maxPerInvestor :: int
  proposalSummary :: string
  deadline :: int
  user :: string
  yayVotes :: int
  nayVotes :: int
  executed :: bool
  status :: status
  createdAt :: int
  votingEndsAt :: int

definition storeProposalInSupabase ::
  "world \<Rightarrow> int \<Rightarrow> int \<Rightarrow> int \<Rightarrow> int \<Rightarrow> string \<Rightarrow> string \<Rightarrow> int \<Rightarrow> string \<Rightarrow> bool io" where
  "storeProposalInSupabase w proposalId' lotSize' sharePrice' maxPerInvestor' proposalSummary'
       user' deadline' transactionHash =
     try_catch
       (bnd (toISOString (deadline' * 1000)) (\<lambda>deadline_iso.
        bnd (now_ms w) (\<lambda>created.
        bnd (now_ms w) (\<lambda>updated.
        bnd (supabase w ''upsert dao_proposals'') (\<lambda>err.
          if err then ret False
          else bnd (modify (\<lambda>s. s\<lparr> dao_proposals :=
                      upsert proposal_id
                        \<lparr> proposal_id = proposalId', lot_size = lotSize',
                          share_price = sharePrice', max_per_investor = maxPerInvestor',
                          proposal_summary = proposalSummary',
                          creator_address = toLowerCase user',
                          deadline_col = deadline_iso,
                          transaction_hash = transactionHash,
                          yay_votes = Some 0, nay_votes = Some 0,
                          executed_col = Some False,
                          created_at = created, updated_at = updated \<rparr>
                        (dao_proposals s) \<rparr>))
                 (\<lambda>_. ret True))))))
       (\<lambda>_. ret False)"

(* the status block of getProposalFromSupabase (lines 80-91) and of
   getProposalsFromSupabase (lines 141-152), which are the same text *)



definition updateProposalVotes :: "world \<Rightarrow> int \<Rightarrow> int \<Rightarrow> int \<Rightarrow> bool io" where
  "updateProposalVotes w proposalId' yayVotes' nayVotes' =
     try_catch
       (bnd (now_ms w) (\<lambda>updated.
        bnd (supabase w ''update dao_proposals'') (\<lambda>err.
          if err then ret False
          else bnd (modify (\<lambda>s. s\<lparr> dao_proposals :=
                      map (\<lambda>r. if proposal_id r = proposalId'
                                then r\<lparr> yay_votes := Some yayVotes', nay_votes := Some nayVotes',
                                        updated_at := updated \<rparr>
                                else r) (dao_proposals s) \<rparr>))
                 (\<lambda>_. ret True))))
       (\<lambda>_. ret False)"

definition updateProposalExecution :: "world \<Rightarrow> int \<Rightarrow> bool \<Rightarrow> bool io" where
  "updateProposalExecution w proposalId' executed' =
     try_catch
       (bnd (now_ms w) (\<lambda>updated.
        bnd (supabase w ''update dao_proposals'') (\<lambda>err.
          if err then ret False
          else bnd (modify (\<lambda>s. s\<lparr> dao_proposals :=
                      map (\<lambda>r. if proposal_id r = proposalId'
                                then r\<lparr> executed_col := Some executed', updated_at := updated \<rparr>
                                else r) (dao_proposals s) \<rparr>))
                 (\<lambda>_. ret True))))
       (\<lambda>_. ret False)"

section \<open>Wallet connection (src/lib/utils/network.ts, src/lib/utils/daoUtils.ts)\<close>

definition ETHERLINK_RPC :: string where
  "ETHERLINK_RPC = ''https://node.shadownet.etherlink.com''"

definition checkEtherlinkNetwork :: "world \<Rightarrow> bool io" where
  "checkEtherlinkNetwork w =
     (if \<not> ethereum_present w then ret False
      else try_catch
             (bnd (ask (eth_chainId w) (Request ''eth_chainId'')) (\<lambda>chainIdNum.
                ret (chainIdNum = 127823)))
             (\<lambda>_. ret False))"

(* always returns null *)
definition initializeProvider :: "world \<Rightarrow> unit io" where
  "initializeProvider w =
     (if \<not> ethereum_present w
      then modify (\<lambda>s. s\<lparr> provider := Some (JsonRpcProvider ETHERLINK_RPC), signer := None \<rparr>)
      else
        bnd (modify (\<lambda>s. s\<lparr> provider := Some BrowserProvider \<rparr>)) (\<lambda>_.
        bnd (try_catch
               (bnd (ask (eth_accounts w) (Request ''eth_accounts'')) (\<lambda>accounts.
                  ret (Some accounts)))
               (\<lambda>_. ret None)) (\<lambda>answer.
          case answer of
            None \<Rightarrow> modify (\<lambda>s. s\<lparr> signer := None \<rparr>)
          | Some accounts \<Rightarrow>
              if accounts \<noteq> []
              then bnd (try_catch (bnd (checkEtherlinkNetwork w) (\<lambda>_. ret ()))
                                  (\<lambda>_. ret ())) (\<lambda>_.
                   modify (\<lambda>s. s\<lparr> signer := None \<rparr>))
              else modify (\<lambda>s. s\<lparr> signer := None \<rparr>))))"

definition connectWithMetamask :: "world \<Rightarrow> signer option io" where
  "connectWithMetamask w =
     (if \<not> ethereum_present w
      then bnd (modify (\<lambda>s. s\<lparr> provider := Some (JsonRpcProvider ETHERLINK_RPC) \<rparr>)) (\<lambda>_.
           ret None)
      else
        bnd (modify (\<lambda>s. s\<lparr> provider := Some BrowserProvider \<rparr>)) (\<lambda>_.
        bnd (checkEtherlinkNetwork w) (\<lambda>isOnEtherlink.
        bnd (ask (eth_requestAccounts w) (Request ''eth_requestAccounts'')) (\<lambda>_.
        bnd (ask (getSigner w) GetSigner) (\<lambda>sg.
        bnd (modify (\<lambda>s. s\<lparr> signer := Some sg \<rparr>)) (\<lambda>_.
        ret (Some sg)))))))"

definition getContract :: "contract io" where
  "getContract =
     bnd (gets signer) (\<lambda>sg.
       case sg of
         None \<Rightarrow> throw (Error ''Signer not initialized. Please connect wallet first.'')
       | Some g \<Rightarrow> ret (Contract_signer g))"

definition getReadOnlyContract :: "contract io" where
  "getReadOnlyContract =
     bnd (gets provider) (\<lambda>p.
       case p of
         None \<Rightarrow> bnd (modify (\<lambda>s. s\<lparr> provider := Some (JsonRpcProvider ETHERLINK_RPC) \<rparr>)) (\<lambda>_.
                   ret (Contract_provider (JsonRpcProvider ETHERLINK_RPC)))
       | Some pr \<Rightarrow> ret (Contract_provider pr))"

definition getCurrentAddress :: "world \<Rightarrow> string option io" where
  "getCurrentAddress w =
     (if \<not> ethereum_present w then ret None
      else
        bnd (gets signer) (\<lambda>sg.
        bnd (case sg of
               Some g \<Rightarrow>
                 try_catch
                   (bnd (ask (\<lambda>t. getAddress w t g) GetAddress) (\<lambda>a. ret (Some a)))
                   (\<lambda>_. bnd (modify (\<lambda>s. s\<lparr> signer := None \<rparr>)) (\<lambda>_. ret None))
             | None \<Rightarrow> ret None) (\<lambda>from_signer.
          case from_signer of
            Some a \<Rightarrow> ret (Some a)
          | None \<Rightarrow>
              try_catch
                (bnd (ask (eth_accounts w) (Request ''eth_accounts'')) (\<lambda>accounts.
                   case accounts of
                     [] \<Rightarrow> ret None
                   | a # _ \<Rightarrow>
                       bnd (gets provider) (\<lambda>p.
                       bnd (if p = None then initializeProvider w else ret ()) (\<lambda>_.
                       ret (Some a)))))
                (\<lambda>_. ret None))))"

section \<open>Membership read (isDaoMember, src/lib/utils/daoUtils.ts)\<close>

(* the decoding of the answer of addressToUser, in the order of the source's tests; the
   default, Boolean(result.isMember), is false (or a TypeError, caught) on every value
   that reaches it *)
definition decodeMembership :: "abi_result \<Rightarrow> bool" where
  "decodeMembership result =
     (case result of
        Res_struct b \<Rightarrow> b
      | Res_bool b \<Rightarrow> b
      | Res_array xs \<Rightarrow> (case xs of [] \<Rightarrow> False | x # _ \<Rightarrow> x)
      | Res_other \<Rightarrow> False)"

definition isDaoMember :: "world \<Rightarrow> string \<Rightarrow> bool io" where
  "isDaoMember w address' =
     try_catch
       (bnd getReadOnlyContract (\<lambda>contract.
        try_catch
          (bnd (ask (\<lambda>t. addressToUser_call w t address') (Read ''addressToUser''))
             (\<lambda>result. ret (decodeMembership result)))
          (\<lambda>callError. throw callError)))
       (\<lambda>e. if code e = ''BAD_DATA'' \<or> str_includes (message e) ''could not decode''
            then ret False
            else ret False)"

section \<open>Write actions (src/lib/utils/daoUtils.ts)\<close>

(* the rethrow of joinDao's catch block *)
definition join_failure :: "jserror \<Rightarrow> jserror" where
  "join_failure e =
     (if reason e \<noteq> [] then Error (''Failed to join DAO: '' @ reason e)
      else if data e \<noteq> [] then Error (''Failed to join DAO: '' @ data e)
      else if message e \<noteq> [] then Error (''Failed to join DAO: '' @ message e)
      else Error ''Failed to join DAO. Please check your wallet balance and try again.'')"

definition joinDao :: "world \<Rightarrow> string \<Rightarrow> tx io" where
  "joinDao w amount =
     bnd (connectWithMetamask w) (\<lambda>_.
     bnd getContract (\<lambda>contract.
     bnd (\<lambda>s. (parseEther w amount, s)) (\<lambda>value.
     bnd (getCurrentAddress w) (\<lambda>address'.
     bnd (if present address'
          then bnd (isDaoMember w (the address')) (\<lambda>isMember'.
                 if isMember' then throw (Error ''You are already a member of the DAO'')
                 else ret ())
          else ret ()) (\<lambda>_.
     try_catch
       (bnd (estimate w (Join value)) (\<lambda>gasEstimate.
        bnd (try_catch
               (bnd (ask (getFeeData w) GetFeeData) (\<lambda>feeData.
                  ret (gasPrice_or feeData (gwei 1))))
               (\<lambda>feeError. ret (gwei 1))) (\<lambda>gasPrice.
        let gasLimit = gasEstimate + (gasEstimate div 5) in
        bnd (send w (Join value) gasPrice gasLimit) (\<lambda>tx.
        ret tx))))
       (\<lambda>e. throw (join_failure e)))))))"

(* the scan of receipt.logs for the proposalCreated event, up to the break *)
fun created_id :: "log list \<Rightarrow> int option" where
  "created_id [] = None"
| "created_id (l # ls) =
     (case parseLog l of
        Inl _ \<Rightarrow> created_id ls
      | Inr None \<Rightarrow> created_id ls
      | Inr (Some p) \<Rightarrow>
          if ev_name p = ''proposalCreated''
          then (case ev_args p of
                  None \<Rightarrow> created_id ls
                | Some (i, u) \<Rightarrow> Some i)
          else created_id ls)"

definition create_failure :: "jserror \<Rightarrow> jserror" where
  "create_failure e =
     (if reason e \<noteq> [] then Error (''Failed to create proposal: '' @ reason e)
      else if data e \<noteq> [] then Error (''Failed to create proposal: '' @ data e)
      else if message e \<noteq> [] then Error (''Failed to create proposal: '' @ message e)
      else Error ''Failed to create proposal. Please check your wallet and try again.'')"

definition createProposal :: "world \<Rightarrow> int \<Rightarrow> int \<Rightarrow> int \<Rightarrow> string \<Rightarrow> tx io" where
  "createProposal w lotSize' sharePrice' maxPerInvestor' proposalSummary' =
     bnd (connectWithMetamask w) (\<lambda>_.
     bnd getContract (\<lambda>contract.
     try_catch
       (let c = CreateProposal lotSize' sharePrice' maxPerInvestor' proposalSummary' in
        bnd (estimate w c) (\<lambda>gasEstimate.
        bnd (try_catch
               (bnd (ask (getFeeData w) GetFeeData) (\<lambda>feeData.
                  ret (gasPrice_or feeData (gwei 1))))
               (\<lambda>feeError. ret (gwei 1))) (\<lambda>gasPrice.
        let gasLimit = gasEstimate + (gasEstimate div 5) in
        bnd (send w c gasPrice gasLimit) (\<lambda>tx.
        bnd (ask (\<lambda>t. wait w t tx) Wait) (\<lambda>receipt.
        bnd (case created_id (logs receipt) of
               Some i \<Rightarrow> if i \<noteq> 0 then ret (Some i)
                         else try_catch
                                (bnd (ask (numProposal_call w) (Read ''numProposal''))
                                   (\<lambda>totalProposals. ret (Some (int totalProposals))))
                                (\<lambda>_. ret (Some i))
             | None \<Rightarrow> try_catch
                         (bnd (ask (numProposal_call w) (Read ''numProposal''))
                            (\<lambda>totalProposals. ret (Some (int totalProposals))))
                         (\<lambda>_. ret None)) (\<lambda>proposalId'.
        bnd (case proposalId' of
               None \<Rightarrow> ret ()
             | Some i \<Rightarrow>
                 if i \<noteq> 0 \<and> i > 0 \<and> hash receipt \<noteq> []
                 then try_catch
                        (bnd (getCurrentAddress w) (\<lambda>address'.
                           if present address'
                           then bnd (now_ms w) (\<lambda>ms.
                                let deadline' = ms div 1000 + (7 * 24 * 60 * 60) in
                                bnd (storeProposalInSupabase w i lotSize' sharePrice'
                                       maxPerInvestor' proposalSummary' (the address')
                                       deadline' (hash receipt)) (\<lambda>_. ret ()))
                           else ret ()))
                        (\<lambda>_. ret ())
                 else ret ()) (\<lambda>_.
        ret tx)))))))
       (\<lambda>e. throw (create_failure e))))"

(* the translation of a failed gas estimate of voteProposal *)
definition vote_estimate_failure :: "jserror \<Rightarrow> jserror" where
  "vote_estimate_failure estimateError =
     (let errorMessage =
            or_else (reason estimateError)
           (or_else (shortMessage estimateError)
           (or_else (error_message estimateError)
           (or_else (data_message estimateError)
           (or_else (message estimateError) []))))
      in
      if str_includes errorMessage ''deadline exceeded'' \<or> str_includes errorMessage ''deadline''
      then Error ''Voting deadline has passed for this proposal.''
      else if str_includes errorMessage ''already voted'' \<or> str_includes errorMessage ''voted''
      then Error ''You have already voted on this proposal.''
      else if str_includes errorMessage ''not a member'' \<or> str_includes errorMessage ''onlyMember''
      then Error ''You are not a DAO member. Please join the DAO first.''
      else Error (''Vote would fail on-chain. '' @
             (if errorMessage \<noteq> [] then ''Reason: '' @ errorMessage
              else ''Possible reasons: deadline passed, already voted, or not a DAO member.'')))"

(* the outer catch block of voteProposal *)
definition vote_failure :: "jserror \<Rightarrow> jserror" where
  "vote_failure e =
     (if message e \<noteq> [] \<and> \<not> str_includes (message e) ''could not coalesce'' then e
      else
        let msg0 =
              or_else (reason e)
             (or_else (shortMessage e)
             (or_else (error_message e)
             (or_else (data_message e)
             (or_else (info_error_message e)
             (or_else (message e) ''Failed to submit vote'')))))
        in
        if str_includes msg0 ''could not coalesce error''
        then Error (''On-chain vote failed. The contract reverted the transaction. '' @
               ''This usually means: (1) you are not a DAO member with this wallet, '' @
               ''(2) the voting deadline has passed, or (3) this wallet has already voted on this proposal. '' @
               ''Please verify your membership status and the proposal's voting period.'')
        else Error msg0)"

definition voteProposal :: "world \<Rightarrow> int \<Rightarrow> int \<Rightarrow> tx io" where
  "voteProposal w proposalId' vote =
     bnd (connectWithMetamask w) (\<lambda>_.
     bnd getContract (\<lambda>contract.
     bnd getReadOnlyContract (\<lambda>readOnlyContract.
     bnd (getCurrentAddress w) (\<lambda>address'.
     if \<not> present address' then throw (Error ''Wallet not connected'')
     else
       try_catch
         (bnd (try_catch
                 (bnd (ask (numProposal_call w) (Read ''numProposal'')) (\<lambda>totalProposals.
                    let maxId = int totalProposals in
                    if proposalId' < 1 \<or> proposalId' > maxId
                    then throw (Error (''Invalid proposalId '' @ toString proposalId' @
                                  ''. On'' @ nb_hyphen @ ''chain numProposal is '' @
                                  toString maxId @ ''.''))
                    else ret totalProposals))
                 (\<lambda>e. throw (Error
                    (or_else (reason e)
                    (or_else (message e)
                      ''Unable to verify proposal ID on-chain. Check that you are connected to the correct network/contract.''))))) (\<lambda>totalProposals.
          bnd (try_catch
                 (bnd (isDaoMember w (the address')) (\<lambda>isMember'.
                    if \<not> isMember'
                    then throw (Error (''Address '' @ the address' @
                                  '' is not a DAO member. Please join the DAO first.''))
                    else ret ()))
                 (\<lambda>e. if str_includes (message e) ''not a DAO member'' then throw e
                      else throw (Error (''Unable to verify DAO membership: '' @
                                    or_else (message e) ''Unknown error'')))) (\<lambda>_.
          bnd (try_catch
                 (estimate w (VoteProposal proposalId' vote))
                 (\<lambda>estimateError. throw (vote_estimate_failure estimateError))) (\<lambda>gasEstimate.
          bnd (try_catch
                 (bnd (ask (getFeeData w) GetFeeData) (\<lambda>feeData.
                    ret (gasPrice_or feeData (gwei 1))))
                 (\<lambda>feeError. ret (gwei 1))) (\<lambda>gasPrice.
          let gasLimit = gasEstimate + (gasEstimate div 5) in
          bnd (send w (VoteProposal proposalId' vote) gasPrice gasLimit) (\<lambda>tx.
          ret tx))))))
         (\<lambda>e. throw (vote_failure e))))))"

(* the translation of a failed gas estimate of executeProposal *)
definition execute_estimate_failure :: "jserror \<Rightarrow> jserror" where
  "execute_estimate_failure estimateError =
     (let reason' = or_else (reason estimateError)
                   (or_else (message estimateError) ''Unknown error'')
      in
      if str_includes reason' ''already executed'' \<or> str_includes reason' ''executed''
      then Error ''This proposal has already been executed''
      else if str_includes reason' ''not a member'' \<or> str_includes reason' ''onlyMember''
      then Error ''You must be a DAO member to execute proposals''
      else if str_includes reason' ''deadline''
      then Error ''Voting deadline has not passed yet''
      else Error (''Cannot execute proposal: '' @ reason'))"

(* the outer catch block of executeProposal *)
definition execute_failure :: "jserror \<Rightarrow> jserror" where
  "execute_failure e =
     (let reason' = or_else (reason e) (or_else (message e) ''Unknown error'')
      in
      if str_includes reason' ''Internal JSON-RPC error''
      then Error ''Contract execution failed. The proposal may not exist on-chain, may already be executed, or there may be a contract issue. Please verify the proposal ID and try again.''
      else if str_includes reason' ''not a member'' \<or> str_includes reason' ''onlyMember''
      then Error ''You must be a DAO member to execute proposals. Please join the DAO first.''
      else if str_includes reason' ''already executed''
      then Error ''This proposal has already been executed.''
      else Error (''Failed to execute proposal: '' @ reason'))"

definition executeProposal :: "world \<Rightarrow> int \<Rightarrow> tx io" where
  "executeProposal w proposalId' =
     bnd (connectWithMetamask w) (\<lambda>_.
     bnd getContract (\<lambda>contract.
     bnd getReadOnlyContract (\<lambda>readOnlyContract.
     bnd (getCurrentAddress w) (\<lambda>address'.
     if \<not> present address' then throw (Error ''Wallet not connected'')
     else
       try_catch
         (bnd (try_catch
                 (bnd (ask (numProposal_call w) (Read ''numProposal'')) (\<lambda>totalProposals.
                    let maxId = int totalProposals in
                    if proposalId' < 1 \<or> proposalId' > maxId
                    then throw (Error (''Invalid proposalId '' @ toString proposalId' @
                                  ''. On-chain numProposal is '' @ toString maxId @ ''.''))
                    else ret totalProposals))
                 (\<lambda>e. throw (Error
                    (or_else (reason e)
                    (or_else (message e)
                      ''Unable to verify proposal ID on-chain. Check that you are connected to the correct network/contract.''))))) (\<lambda>totalProposals.
          bnd (try_catch
                 (estimate w (ExecuteProposal proposalId'))
                 (\<lambda>estimateError. throw (execute_estimate_failure estimateError))) (\<lambda>gasEstimate.
          bnd (ask (getFeeData w) GetFeeData) (\<lambda>feeData.
          let gasPrice = gasPrice_or feeData (gwei 20);
              gasLimit = gasEstimate + (gasEstimate div 5) in
          bnd (send w (ExecuteProposal proposalId') gasPrice gasLimit) (\<lambda>tx.
          ret tx)))))
         (\<lambda>e. throw (execute_failure e))))))"

section \<open>Token actions and buyLot (src/lib/utils/daoUtils.ts)\<close>

(* getUSDCContract: the same test of the signer as getContract *)
definition getUSDCContract :: "contract io" where
  "getUSDCContract =
     bnd (gets signer) (\<lambda>sg.
       case sg of
         None \<Rightarrow> throw (Error ''Signer not initialized. Please connect wallet first.'')
       | Some g \<Rightarrow> ret (Contract_signer g))"

definition getReadOnlyUSDCContract :: "contract io" where
  "getReadOnlyUSDCContract =
     bnd (gets provider) (\<lambda>p.
       case p of
         None \<Rightarrow> bnd (modify (\<lambda>s. s\<lparr> provider := Some (JsonRpcProvider ETHERLINK_RPC) \<rparr>)) (\<lambda>_.
                   ret (Contract_provider (JsonRpcProvider ETHERLINK_RPC)))
       | Some pr \<Rightarrow> ret (Contract_provider pr))"

definition mintUSDC :: "world \<Rightarrow> nat \<Rightarrow> tx io" where
  "mintUSDC w amount =
     bnd (connectWithMetamask w) (\<lambda>_.
     bnd getUSDCContract (\<lambda>usdcContract.
     bnd (getCurrentAddress w) (\<lambda>address'.
     if \<not> present address' then throw (Error ''Wallet not connected'')
     else
       bnd (checkEtherlinkNetwork w) (\<lambda>isOnEtherlink.
       if \<not> isOnEtherlink then throw (Error ''Please switch to Etherlink Shadownet network'')
       else
         bnd (ask (getFeeData w) GetFeeData) (\<lambda>feeData.
         let gasPrice = gasPrice_or feeData (gwei 20) in
         bnd (try_catch
                (bnd (estimate w (MintToSelf amount)) (\<lambda>g. ret (g + (g div 5))))
                (\<lambda>_. ret 100000)) (\<lambda>gasLimit.
         bnd (send w (MintToSelf amount) gasPrice gasLimit) (\<lambda>tx.
         ret tx)))))))"

definition checkUSDCBalance :: "world \<Rightarrow> nat \<Rightarrow> bool io" where
  "checkUSDCBalance w amount =
     bnd (getCurrentAddress w) (\<lambda>address'.
     if \<not> present address' then throw (Error ''Wallet not connected'')
     else
       bnd getReadOnlyUSDCContract (\<lambda>usdcContract.
       bnd (ask (\<lambda>t. balanceOf_call w t (the address')) (Read ''balanceOf'')) (\<lambda>balance.
       ret (balance \<ge> amount))))"

(* returns null when the allowance already covers the amount *)
definition approveUSDC :: "world \<Rightarrow> nat \<Rightarrow> tx option io" where
  "approveUSDC w amount =
     bnd (connectWithMetamask w) (\<lambda>_.
     bnd getUSDCContract (\<lambda>usdcContract.
     bnd (getCurrentAddress w) (\<lambda>address'.
     if \<not> present address' then throw (Error ''Wallet not connected'')
     else
       bnd (checkEtherlinkNetwork w) (\<lambda>isOnEtherlink.
       if \<not> isOnEtherlink then throw (Error ''Please switch to Etherlink Shadownet network'')
       else
         bnd (ask (\<lambda>t. allowance_call w t (the address')) (Read ''allowance'')) (\<lambda>currentAllowance.
         if currentAllowance \<ge> amount then ret None
         else
           bnd (ask (getFeeData w) GetFeeData) (\<lambda>feeData.
           let gasPrice = gasPrice_or feeData (gwei 20) in
           bnd (try_catch
                  (bnd (estimate w (Approve amount)) (\<lambda>g. ret (g + (g div 5))))
                  (\<lambda>_. ret 100000)) (\<lambda>gasLimit.
           bnd (send w (Approve amount) gasPrice gasLimit) (\<lambda>tx.
           ret (Some tx)))))))))"

definition buyLot :: "world \<Rightarrow> nat \<Rightarrow> tx io" where
  "buyLot w amount =
     bnd (connectWithMetamask w) (\<lambda>_.
     bnd getContract (\<lambda>contract.
     bnd (getCurrentAddress w) (\<lambda>address'.
     if \<not> present address' then throw (Error ''Wallet not connected'')
     else
       bnd (checkEtherlinkNetwork w) (\<lambda>isOnEtherlink.
       if \<not> isOnEtherlink then throw (Error ''Please switch to Etherlink Shadownet network'')
       else
         bnd (checkUSDCBalance w amount) (\<lambda>hasBalance.
         if \<not> hasBalance
         then throw (Error ''Insufficient mUSDC balance. Please ensure you have enough tokens.'')
         else
           bnd (approveUSDC w amount) (\<lambda>approveTx.
           bnd (case approveTx of
                  None \<Rightarrow> ret ()
                | Some atx \<Rightarrow> bnd (ask (\<lambda>t. wait w t atx) Wait) (\<lambda>_. ret ())) (\<lambda>_.
           bnd (ask (getFeeData w) GetFeeData) (\<lambda>feeData.
           let gasPrice = gasPrice_or feeData (gwei 20) in
           bnd (try_catch
                  (bnd (estimate w BuyLot) (\<lambda>g. ret (g + (g div 5))))
                  (\<lambda>_. ret 300000)) (\<lambda>gasLimit.
           bnd (send w BuyLot gasPrice gasLimit) (\<lambda>tx.
           ret tx))))))))))"

section \<open>The proposal reader (getProposal, getProposalFromEvents, src/lib/utils/daoUtils.ts)\<close>

(* the predicate of events.find *)
definition event_matches :: "int \<Rightarrow> log \<Rightarrow> bool" where
  "event_matches proposalId' ev =
     (case parseLog ev of
        Inl _ \<Rightarrow> False
      | Inr None \<Rightarrow> False
      | Inr (Some p) \<Rightarrow>
          (case ev_args p of
             None \<Rightarrow> False
           | Some (i, u) \<Rightarrow> i = proposalId'))"

text \<open>
  Two reads of the proposal reader are answered by the code itself rather than by the
  outside.

  The property \<open>contract.provider\<close>: daoUtils.ts is written against ethers 6
  (\<open>ethers.BrowserProvider\<close>, \<open>ethers.JsonRpcSigner\<close>, \<open>contract.join.estimateGas\<close>, gas
  arithmetic on bigints), in which a contract carries a \<open>runner\<close> and has no
  property \<open>provider\<close>; a name that is neither a property nor a function of the ABI reads
  as \<open>undefined\<close>.

  The call \<open>contract.idToProposal(id)\<close>: DAO.sol declares the mapping \<open>idToProposal\<close>
  without \<open>public\<close>, so the contract has no such getter. The call is answered by
  \<open>fallback()\<close> with empty data, which does not decode to the struct (or, with an ABI
  that does not list the function, \<open>contract.idToProposal\<close> is not a function). It throws
  in either case; the error thrown is a parameter of the world.
\<close>

(* the property contract.provider *)
definition contract_provider :: "contract \<Rightarrow> provider option" where
  "contract_provider contract' = None"

(* await contract.idToProposal(proposalId) *)
definition idToProposal_call :: "world \<Rightarrow> int \<Rightarrow> struct_read io" where
  "idToProposal_call w proposalId' =
     ask (\<lambda>t. Inl (idToProposal_error w t proposalId')) (Read ''idToProposal'')"

definition getProposalFromEvents :: "world \<Rightarrow> int \<Rightarrow> contract \<Rightarrow> Proposal option io" where
  "getProposalFromEvents w proposalId' contract' =
     try_catch
       (case contract_provider contract' of
          None \<Rightarrow> ret None
        | Some provider' \<Rightarrow>
            bnd (ask (queryFilter w) QueryFilter) (\<lambda>evs.
            case find (event_matches proposalId') evs of
              None \<Rightarrow> ret None
            | Some proposalEvent \<Rightarrow>
                bnd (\<lambda>s. (parseLog proposalEvent, s)) (\<lambda>p.
                case p of
                  None \<Rightarrow> ret None
                | Some p' \<Rightarrow>
                    (case ev_args p' of
                       None \<Rightarrow> ret None
                     | Some (i, user') \<Rightarrow>
                         bnd (ask (\<lambda>t. getBlock w t (blockNumber proposalEvent))
                                (GetBlock (blockNumber proposalEvent))) (\<lambda>block'.
                         bnd (case block' of
                                None \<Rightarrow> bnd (now_ms w) (\<lambda>ms. ret (ms div 1000))
                              | Some b \<Rightarrow> if timestamp b \<noteq> 0 then ret (timestamp b)
                                          else bnd (now_ms w) (\<lambda>ms. ret (ms div 1000)))
                           (\<lambda>createdAt'.
                         let deadline' = createdAt' + (7 * 24 * 60 * 60) in
                         bnd (now_ms w) (\<lambda>ms.
                         let now = ms div 1000;
                             status' = (if deadline' \<le> now then marketplace else voting) in
                         ret (Some \<lparr> id' = toString proposalId',
                                     proposalId = proposalId',
                                     lotSize = 0,
                                     sharePrice = 0,
                                     maxPerInvestor = 0,
                                     proposalSummary = ''Proposal '' @ toString proposalId',
                                     deadline = deadline',
                                     user = user',
                                     yayVotes = 0,
                                     nayVotes = 0,
                                     executed = False,
                                     status = status',
                                     createdAt = createdAt' * 1000,
                                     votingEndsAt = deadline' * 1000 \<rparr>))))))))
       (\<lambda>_. ret None)"

definition getProposal :: "world \<Rightarrow> int \<Rightarrow> Proposal option io" where
  "getProposal w proposalId' =
     try_catch
       (bnd getReadOnlyContract (\<lambda>contract'.
        try_catch
          (bnd (idToProposal_call w proposalId') (\<lambda>proposal.
           let deadline' = r_deadline proposal in
           if deadline' = 0 then ret None
           else
             bnd (now_ms w) (\<lambda>ms.
             let now = ms div 1000;
                 status' = (if deadline' \<le> now
                            then (if r_executed proposal then closed else marketplace)
                            else voting) in
             ret (Some \<lparr> id' = toString proposalId',
                         proposalId = proposalId',
                         lotSize = r_lotSize proposal,
                         sharePrice = r_SharePrice proposal,
                         maxPerInvestor = r_maxPerInvestor proposal,
                         proposalSummary = r_proposalSummary proposal,
                         deadline = deadline',
                         user = r_user proposal,
                         yayVotes = r_yayVotes proposal,
                         nayVotes = r_nayVotes proposal,
                         executed = r_executed proposal,
                         status = status',
                         createdAt = (deadline' - 7 * 24 * 60 * 60) * 1000,
                         votingEndsAt = deadline' * 1000 \<rparr>))))
          (\<lambda>structError. getProposalFromEvents w proposalId' contract')))
       (\<lambda>e. if code e = ''BAD_DATA'' \<or> str_includes (message e) ''could not decode''
            then try_catch
                   (bnd getReadOnlyContract (\<lambda>contract'.
                      getProposalFromEvents w proposalId' contract'))
                   (\<lambda>eventError. ret None)
            else ret None)"

section \<open>The DAO page (src/app/dao/page.tsx)\<close>

text \<open>
  Of the page component, the two asynchronous handlers that decide membership are
  embedded: \<open>handleJoinDao\<close> and the \<open>checkWalletAndMembership\<close> of the mount effect. The
  \<open>while\<close> loops are recursive functions on the remaining number of retries; a
  \<open>setTimeout\<close> delay is the effect \<open>Sleep\<close> with its milliseconds, a toast is the effect
  \<open>Toast\<close>.
\<close>

(* the loop of lines 158-182, called with retries = 10; the result is the variable
   verified. After verified = true the remaining statements of the try block run inside
   the same try: a throw there leaves verified true and ends the loop. *)
fun verify_loop :: "world \<Rightarrow> string \<Rightarrow> nat \<Rightarrow> bool io" where
  "verify_loop w address' 0 = ret False"
| "verify_loop w address' (Suc retries) =
     bnd (emit (Sleep 2000)) (\<lambda>_.
     bnd (try_catch
            (bnd (isDaoMember w address') (\<lambda>memberStatus.
               if memberStatus = True
               then bnd (try_catch
                           (bnd (modify (\<lambda>s. s\<lparr> justJoinedRef := True,
                                                  isMember_state := True \<rparr>)) (\<lambda>_.
                            bnd (if address' \<noteq> []
                                 then bnd (setDaoMembership w address' True) (\<lambda>_. ret ())
                                 else ret ()) (\<lambda>_.
                            emit (Toast toast_success ''Successfully joined the DAO!''))))
                           (\<lambda>_. ret ())) (\<lambda>_.
                    ret True)
               else ret False))
            (\<lambda>_. ret False)) (\<lambda>verified.
     if verified then ret True else verify_loop w address' retries))"

(* lines 152-200: what follows the confirmation of the join transaction *)
definition verify_after_join :: "world \<Rightarrow> string option \<Rightarrow> unit io" where
  "verify_after_join w address' =
     (if present address'
      then
        bnd (verify_loop w (the address') 10) (\<lambda>verified.
        if \<not> verified
        then bnd (modify (\<lambda>s. s\<lparr> justJoinedRef := True, isMember_state := True \<rparr>)) (\<lambda>_.
             bnd (if present address'
                  then bnd (setDaoMembership w (the address') True) (\<lambda>_. ret ())
                  else ret ()) (\<lambda>_.
             emit (Toast toast_success
                     ''Successfully joined the DAO! (Membership verification pending)'')))
        else ret ())
      else
        bnd (modify (\<lambda>s. s\<lparr> justJoinedRef := True, isMember_state := True \<rparr>)) (\<lambda>_.
        emit (Toast toast_success ''Successfully joined the DAO!'')))"

(* the catch block of handleJoinDao *)
definition join_catch :: "world \<Rightarrow> jserror \<Rightarrow> unit io" where
  "join_catch w e =
     (let errorMessage = (if instanceof_Error e then message e else ''Failed to join DAO'') in
      if str_includes errorMessage ''already a member''
      then bnd (modify (\<lambda>s. s\<lparr> isMember_state := True \<rparr>)) (\<lambda>_.
           bnd (gets address_var) (\<lambda>address'.
           bnd (if present address'
                then bnd (setDaoMembership w (the address') True) (\<lambda>_. ret ())
                else ret ()) (\<lambda>_.
           emit (Toast toast_info ''You are already a member of the DAO''))))
      else emit (Toast toast_error errorMessage))"

definition handleJoinDao :: "world \<Rightarrow> unit io" where
  "handleJoinDao w =
     bnd (modify (\<lambda>s. s\<lparr> address_var := None \<rparr>)) (\<lambda>_.
     try_finally
       (try_catch
          (bnd (modify (\<lambda>s. s\<lparr> joiningDao_state := True \<rparr>)) (\<lambda>_.
           bnd (getCurrentAddress w) (\<lambda>a.
           bnd (modify (\<lambda>s. s\<lparr> address_var := a \<rparr>)) (\<lambda>_.
           bnd (if present a then isDaoMember w (the a) else ret False) (\<lambda>currentMemberStatus.
           if currentMemberStatus
           then bnd (modify (\<lambda>s. s\<lparr> isMember_state := True \<rparr>)) (\<lambda>_.
                bnd (setDaoMembership w (the a) True) (\<lambda>_.
                bnd (emit (Toast toast_info ''You are already a member of the DAO'')) (\<lambda>_.
                modify (\<lambda>s. s\<lparr> joiningDao_state := False \<rparr>))))
           else
             bnd (joinDao w ''0.1'') (\<lambda>tx.
             bnd (emit (Toast toast_success
                          ''Transaction submitted! Waiting for confirmation...'')) (\<lambda>_.
             bnd (ask (\<lambda>t. wait w t tx) Wait) (\<lambda>receipt.
             bnd (emit (Toast toast_success
                          ''Transaction confirmed! Verifying membership...'')) (\<lambda>_.
             bnd (if \<not> present a
                  then bnd (getCurrentAddress w) (\<lambda>a2.
                       bnd (modify (\<lambda>s. s\<lparr> address_var := a2 \<rparr>)) (\<lambda>_.
                       ret a2))
                  else ret a) (\<lambda>address'.
             verify_after_join w address'))))))))))
          (\<lambda>e. join_catch w e))
       (modify (\<lambda>s. s\<lparr> joiningDao_state := False \<rparr>)))"

(* the loop of lines 275-302, called with retries = 3; a round that ends in break
   returns True *)
fun membership_retry :: "world \<Rightarrow> string \<Rightarrow> bool \<Rightarrow> nat \<Rightarrow> unit io" where
  "membership_retry w address' cachedMembership 0 = ret ()"
| "membership_retry w address' cachedMembership (Suc retries) =
     bnd (try_catch
            (bnd (isDaoMember w address') (\<lambda>contractStatus.
             bnd (setDaoMembership w address' contractStatus) (\<lambda>_.
             bnd (modify (\<lambda>s. s\<lparr> isMember_state := contractStatus \<rparr>)) (\<lambda>_.
             ret True))))
            (\<lambda>_.
               if retries > 0 then bnd (emit (Sleep 1000)) (\<lambda>_. ret False)
               else
                 bnd (gets justJoinedRef) (\<lambda>justJoined.
                 if \<not> cachedMembership \<and> \<not> justJoined
                 then bnd (modify (\<lambda>s. s\<lparr> isMember_state := False \<rparr>)) (\<lambda>_.
                      bnd (if address' \<noteq> []
                           then bnd (setDaoMembership w address' False) (\<lambda>_. ret ())
                           else ret ()) (\<lambda>_.
                      ret False))
                 else ret False))) (\<lambda>done.
     if done then ret () else membership_retry w address' cachedMembership retries)"

(* lines 264-302: the cached record first, then the contract *)
definition check_membership :: "world \<Rightarrow> string \<Rightarrow> unit io" where
  "check_membership w address' =
     bnd (getDaoMembership w address') (\<lambda>cachedMembership.
     bnd (if cachedMembership then modify (\<lambda>s. s\<lparr> isMember_state := True \<rparr>)
          else ret ()) (\<lambda>_.
     membership_retry w address' cachedMembership 3))"

definition checkWalletAndMembership :: "world \<Rightarrow> unit io" where
  "checkWalletAndMembership w =
     try_finally
       (try_catch
          (bnd (modify (\<lambda>s. s\<lparr> loading_state := True \<rparr>)) (\<lambda>_.
           if ethereum_present w
           then
             bnd (ask (eth_accounts w) (Request ''eth_accounts'')) (\<lambda>accounts.
             if accounts \<noteq> []
             then
               bnd (checkEtherlinkNetwork w) (\<lambda>isOnEtherlink.
               if \<not> isOnEtherlink then modify (\<lambda>s. s\<lparr> loading_state := False \<rparr>)
               else
                 bnd (initializeProvider w) (\<lambda>_.
                 bnd (getCurrentAddress w) (\<lambda>address'.
                 if present address'
                 then
                   bnd (modify (\<lambda>s. s\<lparr> isConnected_state := True,
                                          walletAddress_state := the address' \<rparr>)) (\<lambda>_.
                   bnd (gets justJoinedRef) (\<lambda>justJoined.
                   if \<not> justJoined then check_membership w (the address')
                   else modify (\<lambda>s. s\<lparr> justJoinedRef := False \<rparr>)))
                 else ret ())))
             else ret ())
           else ret ()))
          (\<lambda>_. ret ()))
       (modify (\<lambda>s. s\<lparr> loading_state := False \<rparr>))"

section \<open>A concrete world and client state\<close>

text \<open>
  The witnesses below run the embedding on a concrete world: a wallet that holds the
  account \<open>0xAbC\<close> on the expected chain, a node that knows two proposals, whose struct
  getter does not decode and whose event log holds the two \<open>proposalCreated\<close> entries, and
  a store that answers every query. Variations of it are written as record updates.
\<close>

definition demo_log :: "int \<Rightarrow> int \<Rightarrow> log" where
  "demo_log i b = \<lparr> blockNumber = b,
     parseLog = Inr (Some \<lparr> ev_name = ''proposalCreated'', ev_args = Some (i, ''0xabc'') \<rparr>) \<rparr>"

definition demo_world :: world where
  "demo_world = \<lparr>
     ethereum_present = True,
     eth_accounts = (\<lambda>_. Inr [''0xAbC'']),
     eth_chainId = (\<lambda>_. Inr 127823),
     eth_requestAccounts = (\<lambda>_. Inr ()),
     getSigner = (\<lambda>_. Inr (JsonRpcSigner ''0xAbC'')),
     getAddress = (\<lambda>_ _. Inr ''0xAbC''),
     parseEther = (\<lambda>_. Inr 100000000000000000),
     numProposal_call = (\<lambda>_. Inr 2),
     addressToUser_call = (\<lambda>_ _. Inr (Res_bool True)),
     idToProposal_error = (\<lambda>_ _. Error ''could not decode result data''),
     balanceOf_call = (\<lambda>_ _. Inr 5000000),
     allowance_call = (\<lambda>_ _. Inr 0),
     estimateGas = (\<lambda>_ _. Inr 21004),
     getFeeData = (\<lambda>_. Inr (Some 1000000000)),
     sendTransaction = (\<lambda>_ _ _ _. Inr \<lparr> tx_hash = ''0x01'' \<rparr>),
     wait = (\<lambda>_ _. Inr \<lparr> hash = ''0x01'', logs = [] \<rparr>),
     queryFilter = (\<lambda>_. Inr [demo_log 1 10, demo_log 2 20]),
     getBlock = (\<lambda>_ b. Inr (Some \<lparr> timestamp = 1000 + b \<rparr>)),
     Date_now = (\<lambda>_. 2000000),
     supabase_error = (\<lambda>_. False) \<rparr>"

(* a row of dao_proposals with the given deadline (milliseconds) and executed flag *)

definition fresh_client :: client where
  "fresh_client = \<lparr> signer = None, provider = None, dao_members = [], dao_proposals = [],
     trace = [], isMember_state = False, isConnected_state = False,
     walletAddress_state = [], joiningDao_state = False, loading_state = True,
     justJoinedRef = False, address_var = None \<rparr>"

section \<open>Notions used by the statements\<close>

(* the derived status as the data model of the specification states it: marketplace when
   executed, else closed when the deadline has passed, else voting *)
definition member_reply :: "jserror + abi_result \<Rightarrow> bool" where
  "member_reply r = (case r of Inl _ \<Rightarrow> False | Inr x \<Rightarrow> decodeMembership x)"

(* the effects that running m from the state s performs *)
definition new_effects :: "client \<Rightarrow> 'a io \<Rightarrow> effect list" where
  "new_effects s m = drop (length (trace s)) (trace (snd (m s)))"

(* the call of a gas estimate or of a send; None for every other effect *)
fun call_of :: "effect \<Rightarrow> call option" where
  "call_of (EstimateGas c r) = Some c"
| "call_of (SendTx c p l) = Some c"
| "call_of _ = None"

(* every transaction sent has a gas estimate of the same call among the effects, and when
   that estimate succeeded with E the transaction carries the gas limit E + floor(E / 5) *)
definition gas_buffered :: "effect list \<Rightarrow> bool" where
  "gas_buffered ev \<longleftrightarrow>
     (\<forall>c p l. SendTx c p l \<in> set ev \<longrightarrow>
        (\<exists>r. EstimateGas c r \<in> set ev) \<and>
        (\<forall>E. EstimateGas c (Some E) \<in> set ev \<longrightarrow> l = E + E div 5))"

(* the outside gives the answer x whenever it is asked *)
definition answers :: "(nat \<Rightarrow> jserror + 'a) \<Rightarrow> 'a \<Rightarrow> bool" where
  "answers f x \<longleftrightarrow> (\<forall>t. f t = Inr x)"

(* a wallet that is present, grants the accounts and hands out the signer g, whose address
   is the non-empty string a *)
definition connected :: "world \<Rightarrow> signer \<Rightarrow> string \<Rightarrow> bool" where
  "connected w g a \<longleftrightarrow>
     ethereum_present w \<and> answers (eth_requestAccounts w) () \<and> answers (getSigner w) g
     \<and> answers (\<lambda>t. getAddress w t g) a \<and> a \<noteq> []"

(* among the effects are a gas estimate of the call c that succeeded with E and a send of
   c with the gas limit l *)
definition submitted :: "call \<Rightarrow> nat \<Rightarrow> nat \<Rightarrow> effect list \<Rightarrow> bool" where
  "submitted c E l ev \<longleftrightarrow> EstimateGas c (Some E) \<in> set ev \<and> (\<exists>p. SendTx c p l \<in> set ev)"

(* one round of the verification loop after a join: the delay, then the membership read *)
definition poll_round :: "effect list" where
  "poll_round = [Sleep 2000, Read ''addressToUser'']"

(* an effect that is neither a membership read nor a delay *)
definition calm :: "effect \<Rightarrow> bool" where
  "calm e = (case e of Read m \<Rightarrow> m \<noteq> ''addressToUser'' | Sleep ms \<Rightarrow> False | _ \<Rightarrow> True)"

section \<open>Notions used by the proofs\<close>

(* every run of m appends to the trace a list of effects that satisfies P *)
definition grows :: "'a io \<Rightarrow> (effect list \<Rightarrow> bool) \<Rightarrow> bool" where
  "grows m P \<longleftrightarrow> (\<forall>s. \<exists>ev. trace (snd (m s)) = trace s @ ev \<and> P ev)"

(* grows, for the runs that start in a state that satisfies I *)
definition grows_from :: "(client \<Rightarrow> bool) \<Rightarrow> 'a io \<Rightarrow> (effect list \<Rightarrow> bool) \<Rightarrow> bool" where
  "grows_from I m P \<longleftrightarrow> (\<forall>s. I s \<longrightarrow> (\<exists>ev. trace (snd (m s)) = trace s @ ev \<and> P ev))"

(* an io that performs neither a gas estimate nor a send *)
abbreviation quiet :: "'a io \<Rightarrow> bool" where
  "quiet m \<equiv> grows m (list_all (\<lambda>e. call_of e = None))"

(* an effect that is no gas estimate, and a send only of the call c with the gas limit l *)
definition sends_only :: "call \<Rightarrow> nat \<Rightarrow> effect \<Rightarrow> bool" where
  "sends_only c l e = (case e of EstimateGas _ _ \<Rightarrow> False
                        | SendTx c' p l' \<Rightarrow> c' = c \<and> l' = l
                        | _ \<Rightarrow> True)"

(* gas_buffered, with every estimate and send on a call of the set C *)
definition tidy :: "call set \<Rightarrow> effect list \<Rightarrow> bool" where
  "tidy C ev \<longleftrightarrow> gas_buffered ev \<and> list_all (\<lambda>e. case call_of e of None \<Rightarrow> True | Some c \<Rightarrow> c \<in> C) ev"


(* every run of m from a state that satisfies I ends in a state that satisfies I *)
definition stays :: "(client \<Rightarrow> bool) \<Rightarrow> 'a io \<Rightarrow> bool" where
  "stays I m \<longleftrightarrow> (\<forall>s. I s \<longrightarrow> I (snd (m s)))"

section \<open>Auxiliary lemmas\<close>

lemmas io_defs = bnd_def try_catch_def try_finally_def ret_def throw_def modify_def gets_def
  emit_def ask_def

subsection \<open>Upsert on a table with a unique key\<close>

lemma upsert_filter:
  "distinct (map key rows) \<Longrightarrow> filter (\<lambda>x. key x = key r) (upsert key r rows) = [r]"
  by (induction rows) (auto simp: filter_empty_conv image_iff)

lemma upsert_others:
  "filter (\<lambda>x. key x \<noteq> key r) (upsert key r rows) = filter (\<lambda>x. key x \<noteq> key r) rows"
  by (induction rows) auto

lemma upsert_keys: "set (map key (upsert key r rows)) = insert (key r) (set (map key rows))"
  by (induction rows) auto

lemma upsert_distinct:
  "distinct (map key rows) \<Longrightarrow> distinct (map key (upsert key r rows))"
proof (induction rows)
  case Nil
  then show ?case by simp
next
  case (Cons x xs)
  have "key x \<notin> set (map key (upsert key r xs))" if "key x \<noteq> key r"
    using that Cons.prems unfolding upsert_keys by auto
  with Cons show ?case by auto
qed

lemma storeProposalInSupabase_True:
  "storeProposalInSupabase w pid l p m sm u d h s = (Inr True, s') \<Longrightarrow>
   dao_proposals s' = upsert proposal_id
      \<lparr> proposal_id = pid, lot_size = l, share_price = p, max_per_investor = m,
        proposal_summary = sm, creator_address = toLowerCase u, deadline_col = d * 1000,
        transaction_hash = h, yay_votes = Some 0, nay_votes = Some 0,
        executed_col = Some False, created_at = Date_now w (length (trace s)),
        updated_at = Date_now w (Suc (length (trace s))) \<rparr> (dao_proposals s)"
  by (auto simp: storeProposalInSupabase_def toISOString_def now_ms_def supabase_def io_defs
      split: if_splits)

subsection \<open>The effects an action performs\<close>

lemma growsI: "(\<And>s. \<exists>ev. trace (snd (m s)) = trace s @ ev \<and> P ev) \<Longrightarrow> grows m P"
  by (simp add: grows_def)

lemma growsD: "grows m P \<Longrightarrow> \<exists>ev. trace (snd (m s)) = trace s @ ev \<and> P ev"
  by (simp add: grows_def)

lemma grows_new_effects: "grows m P \<Longrightarrow> P (new_effects s m)"
  by (auto simp: grows_def new_effects_def dest!: spec [of _ s])

lemma grows_ret: "P [] \<Longrightarrow> grows (ret x) P"
  by (simp add: grows_def ret_def)

lemma grows_throw: "P [] \<Longrightarrow> grows (throw e) P"
  by (simp add: grows_def throw_def)

lemma grows_gets: "P [] \<Longrightarrow> grows (gets f) P"
  by (simp add: grows_def gets_def)

lemma grows_pure: "P [] \<Longrightarrow> grows (\<lambda>s. (r, s)) P"
  by (simp add: grows_def)

lemma grows_modify: "P [] \<Longrightarrow> (\<And>s. trace (f s) = trace s) \<Longrightarrow> grows (modify f) P"
  by (simp add: grows_def modify_def)

lemma grows_emit: "P [e] \<Longrightarrow> grows (emit e) P"
  by (simp add: grows_def emit_def)

lemma grows_ask: "P [e] \<Longrightarrow> grows (ask a e) P"
  by (simp add: grows_def ask_def)

lemma grows_if: "grows a P \<Longrightarrow> grows b P \<Longrightarrow> grows (if c then a else b) P"
  by simp

lemma grows_option: "grows a P \<Longrightarrow> (\<And>y. grows (b y) P) \<Longrightarrow> grows (case x of None \<Rightarrow> a | Some y \<Rightarrow> b y) P"
  by (cases x) simp_all

lemma grows_list: "grows a P \<Longrightarrow> (\<And>y ys. grows (b y ys) P) \<Longrightarrow> grows (case x of [] \<Rightarrow> a | y # ys \<Rightarrow> b y ys) P"
  by (cases x) simp_all

lemma grows_prod: "(\<And>a b. grows (f a b) P) \<Longrightarrow> grows (case x of (a, b) \<Rightarrow> f a b) P"
  by (cases x) simp

(* sequencing, for a property of effect lists that holds of a concatenation *)
lemma grows_bnd:
  assumes m: "grows m P" and f: "\<And>x. grows (f x) Q"
    and PR: "\<And>a. P a \<Longrightarrow> R a" and PQR: "\<And>a b. P a \<Longrightarrow> Q b \<Longrightarrow> R (a @ b)"
  shows "grows (bnd m f) R"
proof (rule growsI)
  fix s
  obtain r s1 where ms: "m s = (r, s1)" by (cases "m s")
  from growsD [OF m, of s] ms obtain a where a: "trace s1 = trace s @ a" "P a" by auto
  show "\<exists>ev. trace (snd (bnd m f s)) = trace s @ ev \<and> R ev"
  proof (cases r)
    case (Inl e)
    with ms a PR show ?thesis by (auto simp: bnd_def)
  next
    case (Inr x)
    from growsD [OF f, of x s1] obtain b where b: "trace (snd (f x s1)) = trace s1 @ b" "Q b"
      by auto
    with ms a Inr PQR [of a b] show ?thesis by (auto simp: bnd_def)
  qed
qed

lemma grows_try:
  assumes m: "grows m P" and h: "\<And>e. grows (h e) Q"
    and PR: "\<And>a. P a \<Longrightarrow> R a" and PQR: "\<And>a b. P a \<Longrightarrow> Q b \<Longrightarrow> R (a @ b)"
  shows "grows (try_catch m h) R"
proof (rule growsI)
  fix s
  obtain r s1 where ms: "m s = (r, s1)" by (cases "m s")
  from growsD [OF m, of s] ms obtain a where a: "trace s1 = trace s @ a" "P a" by auto
  show "\<exists>ev. trace (snd (try_catch m h s)) = trace s @ ev \<and> R ev"
  proof (cases r)
    case (Inr x)
    with ms a PR show ?thesis by (auto simp: try_catch_def)
  next
    case (Inl e)
    from growsD [OF h, of e s1] obtain b where b: "trace (snd (h e s1)) = trace s1 @ b" "Q b"
      by auto
    with ms a Inl PQR [of a b] show ?thesis by (auto simp: try_catch_def)
  qed
qed


subsection \<open>Properties that hold of every effect\<close>

lemma all_bnd:
  "grows m (list_all p) \<Longrightarrow> (\<And>x. grows (f x) (list_all p)) \<Longrightarrow> grows (bnd m f) (list_all p)"
  by (rule grows_bnd [where P = "list_all p" and Q = "list_all p"]) auto

lemma all_try:
  "grows m (list_all p) \<Longrightarrow> (\<And>e. grows (h e) (list_all p)) \<Longrightarrow> grows (try_catch m h) (list_all p)"
  by (rule grows_try [where P = "list_all p" and Q = "list_all p"]) auto

lemma all_ret: "grows (ret x) (list_all p)"
  and all_throw: "grows (throw e) (list_all p)"
  and all_gets: "grows (gets g) (list_all p)"
  and all_pure: "grows (\<lambda>s. (r, s)) (list_all p)"
  by (simp_all add: grows_ret grows_throw grows_gets grows_pure)

lemma all_modify: "(\<And>s. trace (f s) = trace s) \<Longrightarrow> grows (modify f) (list_all p)"
  by (rule grows_modify) simp_all

lemma all_emit: "p e \<Longrightarrow> grows (emit e) (list_all p)"
  by (rule grows_emit) simp

lemma all_ask: "p e \<Longrightarrow> grows (ask a e) (list_all p)"
  by (rule grows_ask) simp

lemma all_weaken: "grows m (list_all p) \<Longrightarrow> (\<And>e. p e \<Longrightarrow> q e) \<Longrightarrow> grows m (list_all q)"
  by (auto simp: grows_def list_all_iff) blast

lemmas all_intros = all_bnd all_try all_ret all_throw all_gets all_pure all_modify all_emit
  all_ask grows_if grows_option grows_list

lemma quiet_checkEtherlinkNetwork: "quiet (checkEtherlinkNetwork w)"
  unfolding checkEtherlinkNetwork_def by (intro all_intros; simp)

lemma quiet_initializeProvider: "quiet (initializeProvider w)"
  unfolding initializeProvider_def
  by (intro all_intros quiet_checkEtherlinkNetwork; simp)

lemma quiet_connectWithMetamask: "quiet (connectWithMetamask w)"
  unfolding connectWithMetamask_def
  by (intro all_intros quiet_checkEtherlinkNetwork; simp)

lemma quiet_getContract: "quiet getContract"
  unfolding getContract_def by (intro all_intros; simp)

lemma quiet_getUSDCContract: "quiet getUSDCContract"
  unfolding getUSDCContract_def by (intro all_intros; simp)

lemma quiet_getReadOnlyContract: "quiet getReadOnlyContract"
  unfolding getReadOnlyContract_def by (intro all_intros; simp)

lemma quiet_getReadOnlyUSDCContract: "quiet getReadOnlyUSDCContract"
  unfolding getReadOnlyUSDCContract_def by (intro all_intros; simp)

lemma quiet_getCurrentAddress: "quiet (getCurrentAddress w)"
  unfolding getCurrentAddress_def
  by (intro all_intros quiet_initializeProvider; simp)

lemma quiet_isDaoMember: "quiet (isDaoMember w a)"
  unfolding isDaoMember_def
  by (intro all_intros quiet_getReadOnlyContract; simp)

lemma quiet_now_ms: "quiet (now_ms w)"
  unfolding now_ms_def by (intro all_intros; simp)

lemma quiet_storeProposalInSupabase: "quiet (storeProposalInSupabase w i l p m sm u d h)"
  unfolding storeProposalInSupabase_def toISOString_def supabase_def
  by (intro all_intros quiet_now_ms; simp)

lemma quiet_checkUSDCBalance: "quiet (checkUSDCBalance w amount)"
  unfolding checkUSDCBalance_def
  by (intro all_intros quiet_getCurrentAddress quiet_getReadOnlyUSDCContract; simp)

subsection \<open>Gas estimates and sends\<close>

lemma call_of_None_iff: "call_of e = None \<longleftrightarrow> (\<forall>c r. e \<noteq> EstimateGas c r) \<and> (\<forall>c p l. e \<noteq> SendTx c p l)"
  by (cases e) auto

lemma quiet_tidy: "list_all (\<lambda>e. call_of e = None) a \<Longrightarrow> tidy C a"
  by (auto simp: tidy_def gas_buffered_def list_all_iff)

lemma tidy_buffered: "tidy C a \<Longrightarrow> gas_buffered a"
  by (simp add: tidy_def)

lemma tidy_append:
  assumes "tidy C a" and "tidy D b" and "C \<inter> D = {}"
  shows "tidy (C \<union> D) (a @ b)"
proof -
  have in_C: "c \<in> C" if "call_of e = Some c" "e \<in> set a" for e c
    using assms(1) that by (auto simp: tidy_def list_all_iff split: option.splits)
  have in_D: "c \<in> D" if "call_of e = Some c" "e \<in> set b" for e c
    using assms(2) that by (auto simp: tidy_def list_all_iff split: option.splits)
  have "l = E + E div 5"
    if s: "SendTx c p l \<in> set (a @ b)" and e: "EstimateGas c (Some E) \<in> set (a @ b)" for c p l E
  proof (cases "SendTx c p l \<in> set a")
    case True
    then have "c \<in> C" using in_C [of "SendTx c p l" c] by simp
    with assms(3) in_D [of "EstimateGas c (Some E)" c] e have "EstimateGas c (Some E) \<in> set a"
      by auto
    with True assms(1) show ?thesis by (auto simp: tidy_def gas_buffered_def)
  next
    case False
    with s have sb: "SendTx c p l \<in> set b" by simp
    then have "c \<in> D" using in_D [of "SendTx c p l" c] by simp
    with assms(3) in_C [of "EstimateGas c (Some E)" c] e have "EstimateGas c (Some E) \<in> set b"
      by auto
    with sb assms(2) show ?thesis by (auto simp: tidy_def gas_buffered_def)
  qed
  moreover have "\<exists>r. EstimateGas c r \<in> set (a @ b)" if "SendTx c p l \<in> set (a @ b)" for c p l
    using that assms(1,2) unfolding tidy_def gas_buffered_def by auto blast+
  ultimately have "gas_buffered (a @ b)"
    unfolding gas_buffered_def by blast
  moreover have "list_all (\<lambda>e. case call_of e of None \<Rightarrow> True | Some c \<Rightarrow> c \<in> C \<union> D) (a @ b)"
    using assms(1,2) by (auto simp: tidy_def list_all_iff split: option.splits)
  ultimately show ?thesis by (simp add: tidy_def)
qed

lemma tidy_quiet_append: "list_all (\<lambda>e. call_of e = None) a \<Longrightarrow> tidy C b \<Longrightarrow> tidy C (a @ b)"
  using tidy_append [of "{}" a C b] quiet_tidy [of a "{}"] by simp

lemma tidy_append_quiet: "tidy C a \<Longrightarrow> list_all (\<lambda>e. call_of e = None) b \<Longrightarrow> tidy C (a @ b)"
  using tidy_append [of C a "{}" b] quiet_tidy [of b "{}"] by simp

lemma quiet_no_gas:
  assumes "list_all (\<lambda>e. call_of e = None) a"
  shows "SendTx c p l \<notin> set a" and "EstimateGas c r \<notin> set a"
  using assms by (auto simp: list_all_iff)

lemma buffered_quiet_append:
  "list_all (\<lambda>e. call_of e = None) a \<Longrightarrow> gas_buffered b \<Longrightarrow> gas_buffered (a @ b)"
  unfolding gas_buffered_def by (simp add: quiet_no_gas)

lemma buffered_quiet: "list_all (\<lambda>e. call_of e = None) a \<Longrightarrow> gas_buffered a"
  by (auto simp: gas_buffered_def list_all_iff)

lemma tidy_estimate_failed: "list_all (\<lambda>e. call_of e = None) b \<Longrightarrow> tidy {c} (EstimateGas c None # b)"
  by (auto simp: tidy_def gas_buffered_def list_all_iff)

lemma sends_only_cases: "sends_only c l e \<Longrightarrow> call_of e = None \<or> (\<exists>p. e = SendTx c p l)"
  by (cases e) (auto simp: sends_only_def)

lemma tidy_estimate:
  assumes "list_all (sends_only c (g + g div 5)) b"
  shows "tidy {c} (EstimateGas c (Some g) # b)"
proof -
  have b: "call_of e = None \<or> (\<exists>p. e = SendTx c p (g + g div 5))" if "e \<in> set b" for e
    using assms that by (auto simp: list_all_iff dest: sends_only_cases)
  have "gas_buffered (EstimateGas c (Some g) # b)"
    unfolding gas_buffered_def using b by fastforce
  moreover have "list_all (\<lambda>e. case call_of e of None \<Rightarrow> True | Some c' \<Rightarrow> c' \<in> {c}) b"
    unfolding list_all_iff using b by fastforce
  ultimately show ?thesis by (simp add: tidy_def)
qed

lemma tidy_mono: "tidy C a \<Longrightarrow> C \<subseteq> D \<Longrightarrow> tidy D a"
  by (auto simp: tidy_def list_all_iff split: option.splits)

lemma sends_of_quiet: "quiet m \<Longrightarrow> grows m (list_all (sends_only c l))"
  by (erule all_weaken) (auto simp: sends_only_def split: effect.splits)

lemma sends_send: "grows (send w c p l) (list_all (sends_only c l))"
  unfolding send_def by (rule all_ask) (simp add: sends_only_def)

lemma buffered_bnd_quiet:
  "quiet m \<Longrightarrow> (\<And>x. grows (f x) gas_buffered) \<Longrightarrow> grows (bnd m f) gas_buffered"
  by (rule grows_bnd [where P = "list_all (\<lambda>e. call_of e = None)" and Q = gas_buffered])
    (auto intro: buffered_quiet buffered_quiet_append)

lemma tidy_bnd_quiet:
  "quiet m \<Longrightarrow> (\<And>x. grows (f x) (tidy C)) \<Longrightarrow> grows (bnd m f) (tidy C)"
  by (rule grows_bnd [where P = "list_all (\<lambda>e. call_of e = None)" and Q = "tidy C"])
    (auto intro: quiet_tidy tidy_quiet_append)

lemma tidy_bnd:
  "grows m (tidy C) \<Longrightarrow> (\<And>x. grows (f x) (tidy D)) \<Longrightarrow> C \<inter> D = {} \<Longrightarrow>
   grows (bnd m f) (tidy (C \<union> D))"
  by (rule grows_bnd [where P = "tidy C" and Q = "tidy D"])
    (auto intro: tidy_append tidy_mono)

lemma tidy_try_quiet:
  "grows m (tidy C) \<Longrightarrow> (\<And>e. quiet (h e)) \<Longrightarrow> grows (try_catch m h) (tidy C)"
  by (rule grows_try [where P = "tidy C" and Q = "list_all (\<lambda>e. call_of e = None)"])
    (auto intro: tidy_append_quiet)

lemma tidy_grows_buffered: "grows m (tidy C) \<Longrightarrow> grows m gas_buffered"
  unfolding grows_def tidy_def by blast

(* an estimate whose continuation sends only with the buffered limit *)
lemma tidy_estimate_bnd:
  assumes "\<And>g. grows (f g) (list_all (sends_only c (g + g div 5)))"
  shows "grows (bnd (estimate w c) f) (tidy {c})"
proof (rule growsI)
  fix s
  show "\<exists>ev. trace (snd (bnd (estimate w c) f s)) = trace s @ ev \<and> tidy {c} ev"
  proof (cases "estimateGas w (length (trace s)) c")
    case (Inl e)
    then show ?thesis
      using tidy_estimate_failed [of "[]" c] by (simp add: bnd_def estimate_def)
  next
    case (Inr g)
    let ?s1 = "s\<lparr> trace := trace s @ [EstimateGas c (Some g)] \<rparr>"
    from growsD [OF assms, of g ?s1] obtain b
      where b: "trace (snd (f g ?s1)) = trace ?s1 @ b" "list_all (sends_only c (g + g div 5)) b"
      by blast
    with Inr tidy_estimate [of c g b] show ?thesis
      by (simp add: bnd_def estimate_def)
  qed
qed

lemma tidy_try_estimate_bnd:
  assumes "\<And>g. grows (f g) (list_all (sends_only c (g + g div 5)))"
  shows "grows (bnd (try_catch (estimate w c) (\<lambda>e. throw (t e))) f) (tidy {c})"
proof -
  have "bnd (try_catch (estimate w c) (\<lambda>e. throw (t e))) f s
          = (case bnd (estimate w c) f s of
               (Inl e, s') \<Rightarrow> (if isl (estimateGas w (length (trace s)) c) then Inl (t e) else Inl e, s')
             | (Inr x, s') \<Rightarrow> (Inr x, s'))" for s
    by (simp add: bnd_def try_catch_def estimate_def throw_def split: sum.splits prod.splits)
  then have "trace (snd (bnd (try_catch (estimate w c) (\<lambda>e. throw (t e))) f s))
               = trace (snd (bnd (estimate w c) f s))" for s
    by (simp split: prod.splits sum.splits)
  with tidy_estimate_bnd [OF assms, of w] show ?thesis
    by (simp add: grows_def)
qed

(* an estimate with a fallback limit, followed by the send *)
lemma tidy_estimate_fallback:
  "grows (bnd (try_catch (bnd (estimate w c) (\<lambda>g. ret (g + (g div 5)))) (\<lambda>_. ret k))
            (\<lambda>gasLimit. bnd (send w c p gasLimit) (\<lambda>tx. ret (r tx)))) (tidy {c})"
  by (rule growsI)
    (auto simp: tidy_def gas_buffered_def io_defs estimate_def send_def split: sum.splits)

lemma gas_buffered_Nil: "gas_buffered []"
  by (simp add: gas_buffered_def)

lemma tidy_Nil: "tidy C []"
  by (simp add: tidy_def gas_buffered_def)

lemma buffered_throw: "grows (throw e) gas_buffered"
  by (rule grows_throw) (rule gas_buffered_Nil)

lemma tidy_throw: "grows (throw e) (tidy C)"
  by (rule grows_throw) (rule tidy_Nil)

lemma tidy_ret: "grows (ret x) (tidy C)"
  by (rule grows_ret) (rule tidy_Nil)

lemmas sends_intros = all_intros sends_send
  quiet_getCurrentAddress [THEN sends_of_quiet]
  quiet_now_ms [THEN sends_of_quiet]
  quiet_storeProposalInSupabase [THEN sends_of_quiet]

lemma joinDao_buffered: "grows (joinDao w amount) gas_buffered"
  unfolding joinDao_def Let_def
  apply (rule buffered_bnd_quiet [OF quiet_connectWithMetamask])
  apply (rule buffered_bnd_quiet [OF quiet_getContract])
  apply (rule buffered_bnd_quiet [OF all_pure])
  apply (rule buffered_bnd_quiet [OF quiet_getCurrentAddress])
  apply (rule buffered_bnd_quiet)
   apply (intro all_intros quiet_isDaoMember; simp)
  apply (rule tidy_grows_buffered)
  apply (rule tidy_try_quiet)
   apply (rule tidy_estimate_bnd)
   apply (intro sends_intros; simp add: sends_only_def)
  apply (rule all_throw)
  done

lemma createProposal_buffered: "grows (createProposal w l p m sm) gas_buffered"
  unfolding createProposal_def Let_def
  apply (rule buffered_bnd_quiet [OF quiet_connectWithMetamask])
  apply (rule buffered_bnd_quiet [OF quiet_getContract])
  apply (rule tidy_grows_buffered)
  apply (rule tidy_try_quiet)
   apply (rule tidy_estimate_bnd)
   apply (intro sends_intros; simp add: sends_only_def)
  apply (rule all_throw)
  done

lemma voteProposal_buffered: "grows (voteProposal w pid v) gas_buffered"
  unfolding voteProposal_def Let_def
  apply (rule buffered_bnd_quiet [OF quiet_connectWithMetamask])
  apply (rule buffered_bnd_quiet [OF quiet_getContract])
  apply (rule buffered_bnd_quiet [OF quiet_getReadOnlyContract])
  apply (rule buffered_bnd_quiet [OF quiet_getCurrentAddress])
  apply (rule grows_if)
   apply (rule buffered_throw)
  apply (rule tidy_grows_buffered)
  apply (rule tidy_try_quiet)
   apply (rule tidy_bnd_quiet)
    apply (intro all_intros; simp)
   apply (rule tidy_bnd_quiet)
    apply (intro all_intros quiet_isDaoMember; simp)
   apply (rule tidy_try_estimate_bnd)
   apply (intro sends_intros; simp add: sends_only_def)
  apply (rule all_throw)
  done

lemma executeProposal_buffered: "grows (executeProposal w pid) gas_buffered"
  unfolding executeProposal_def Let_def
  apply (rule buffered_bnd_quiet [OF quiet_connectWithMetamask])
  apply (rule buffered_bnd_quiet [OF quiet_getContract])
  apply (rule buffered_bnd_quiet [OF quiet_getReadOnlyContract])
  apply (rule buffered_bnd_quiet [OF quiet_getCurrentAddress])
  apply (rule grows_if)
   apply (rule buffered_throw)
  apply (rule tidy_grows_buffered)
  apply (rule tidy_try_quiet)
   apply (rule tidy_bnd_quiet)
    apply (intro all_intros; simp)
   apply (rule tidy_try_estimate_bnd)
   apply (intro sends_intros; simp add: sends_only_def)
  apply (rule all_throw)
  done

lemma mintUSDC_buffered: "grows (mintUSDC w amount) gas_buffered"
  unfolding mintUSDC_def Let_def
  apply (rule buffered_bnd_quiet [OF quiet_connectWithMetamask])
  apply (rule buffered_bnd_quiet [OF quiet_getUSDCContract])
  apply (rule buffered_bnd_quiet [OF quiet_getCurrentAddress])
  apply (rule grows_if)
   apply (rule buffered_throw)
  apply (rule buffered_bnd_quiet [OF quiet_checkEtherlinkNetwork])
  apply (rule grows_if)
   apply (rule buffered_throw)
  apply (rule buffered_bnd_quiet)
   apply (rule all_ask, simp)
  apply (rule tidy_grows_buffered)
  apply (rule tidy_estimate_fallback [where r = "\<lambda>tx. tx"])
  done

lemma approveUSDC_tidy: "grows (approveUSDC w amount) (tidy {Approve amount})"
  unfolding approveUSDC_def Let_def
  apply (rule tidy_bnd_quiet [OF quiet_connectWithMetamask])
  apply (rule tidy_bnd_quiet [OF quiet_getUSDCContract])
  apply (rule tidy_bnd_quiet [OF quiet_getCurrentAddress])
  apply (rule grows_if)
   apply (rule tidy_throw)
  apply (rule tidy_bnd_quiet [OF quiet_checkEtherlinkNetwork])
  apply (rule grows_if)
   apply (rule tidy_throw)
  apply (rule tidy_bnd_quiet)
   apply (rule all_ask, simp)
  apply (rule grows_if)
   apply (rule tidy_ret)
  apply (rule tidy_bnd_quiet)
   apply (rule all_ask, simp)
  apply (rule tidy_estimate_fallback)
  done

lemma buyLot_buffered: "grows (buyLot w amount) gas_buffered"
  unfolding buyLot_def Let_def
  apply (rule buffered_bnd_quiet [OF quiet_connectWithMetamask])
  apply (rule buffered_bnd_quiet [OF quiet_getContract])
  apply (rule buffered_bnd_quiet [OF quiet_getCurrentAddress])
  apply (rule grows_if)
   apply (rule buffered_throw)
  apply (rule buffered_bnd_quiet [OF quiet_checkEtherlinkNetwork])
  apply (rule grows_if)
   apply (rule buffered_throw)
  apply (rule buffered_bnd_quiet [OF quiet_checkUSDCBalance])
  apply (rule grows_if)
   apply (rule buffered_throw)
  apply (rule tidy_grows_buffered [where C = "{Approve amount} \<union> {BuyLot}"])
  apply (rule tidy_bnd [OF approveUSDC_tidy])
   apply (rule tidy_bnd_quiet)
    apply (intro all_intros; simp)
   apply (rule tidy_bnd_quiet)
    apply (rule all_ask, simp)
   apply (rule tidy_estimate_fallback [where r = "\<lambda>tx. tx"])
  apply simp
  done

subsection \<open>Runs of the session helpers\<close>

lemmas session_defs = connectWithMetamask_def checkEtherlinkNetwork_def getContract_def
  getReadOnlyContract_def getCurrentAddress_def present_def

lemma isDaoMember_run:
  "isDaoMember w a s =
     (Inr (member_reply (addressToUser_call w (length (trace s)) a)),
      s\<lparr> provider := Some (case provider s of None \<Rightarrow> JsonRpcProvider ETHERLINK_RPC | Some p \<Rightarrow> p),
         trace := trace s @ [Read ''addressToUser''] \<rparr>)"
  by (cases "provider s"; cases "addressToUser_call w (length (trace s)) a")
    (simp_all add: isDaoMember_def getReadOnlyContract_def member_reply_def io_defs)

subsection \<open>Runs that reach the send\<close>

lemmas run_defs = connected_def answers_def submitted_def session_defs isDaoMember_run
  new_effects_def io_defs estimate_def send_def Let_def

lemma submitted_append: "submitted c E l b \<Longrightarrow> submitted c E l (a @ b)"
  and submitted_append2: "submitted c E l a \<Longrightarrow> submitted c E l (a @ b)"
  by (auto simp: submitted_def)

lemma grows_from_weaken: "grows m P \<Longrightarrow> grows_from I m P"
  by (simp add: grows_def grows_from_def)

lemma grows_from_new_effects: "grows_from I m P \<Longrightarrow> I s \<Longrightarrow> P (new_effects s m)"
  by (auto simp: grows_from_def new_effects_def dest!: spec [of _ s])

(* sequencing after a step that succeeds and establishes J *)
lemma grows_from_bnd:
  assumes run: "\<And>s. I s \<Longrightarrow> \<exists>x s' a. m s = (Inr x, s') \<and> trace s' = trace s @ a \<and> J s'"
    and f: "\<And>x. grows_from J (f x) P"
    and up: "\<And>a b. P b \<Longrightarrow> P (a @ b)"
  shows "grows_from I (bnd m f) P"
  unfolding grows_from_def
proof (intro allI impI)
  fix s assume "I s"
  from run [OF this] obtain x s' a where m: "m s = (Inr x, s')" "trace s' = trace s @ a" "J s'"
    by blast
  from f [of x] \<open>J s'\<close> obtain b where b: "trace (snd (f x s')) = trace s' @ b" "P b"
    by (auto simp: grows_from_def)
  with m up [of b a] show "\<exists>ev. trace (snd (bnd m f s)) = trace s @ ev \<and> P ev"
    by (simp add: bnd_def)
qed

lemma submitted_try:
  assumes "grows m (submitted c E l)" "\<And>e. quiet (h e)"
  shows "grows (try_catch m h) (submitted c E l)"
  using assms
  by (rule grows_try [where P = "submitted c E l" and Q = "list_all (\<lambda>e. call_of e = None)"])
    (auto intro: submitted_append2)

(* an estimate that succeeds, the fee data with its fallback, the send, and a continuation
   that neither estimates nor sends *)
lemma submitted_estimate_bnd:
  assumes est: "answers (\<lambda>t. estimateGas w t c) E"
    and k: "\<And>p tx. quiet (k p tx)"
  shows "grows (bnd (estimate w c) (\<lambda>g.
           bnd (try_catch (bnd (ask (getFeeData w) GetFeeData) (\<lambda>feeData.
                             ret (gasPrice_or feeData d)))
                          (\<lambda>feeError. ret d)) (\<lambda>gasPrice.
           bnd (send w c gasPrice (g + g div 5)) (k gasPrice))))
         (submitted c E (E + E div 5))"
proof (rule growsI)
  fix s :: client
  let ?m = "bnd (estimate w c) (\<lambda>g.
           bnd (try_catch (bnd (ask (getFeeData w) GetFeeData) (\<lambda>feeData.
                             ret (gasPrice_or feeData d)))
                          (\<lambda>feeError. ret d)) (\<lambda>gasPrice.
           bnd (send w c gasPrice (g + g div 5)) (k gasPrice)))"
  let ?p = "case getFeeData w (Suc (length (trace s))) of Inl _ \<Rightarrow> d | Inr fd \<Rightarrow> gasPrice_or fd d"
  let ?ev = "[EstimateGas c (Some E), GetFeeData, SendTx c ?p (E + E div 5)]"
  let ?s3 = "s\<lparr> trace := trace s @ ?ev \<rparr>"
  have run: "?m s = (case sendTransaction w (Suc (Suc (length (trace s)))) c ?p (E + E div 5) of
                      Inl e \<Rightarrow> (Inl e, ?s3) | Inr tx \<Rightarrow> k ?p tx ?s3)"
    using est by (simp add: answers_def io_defs estimate_def send_def split: sum.splits)
  have sub: "submitted c E (E + E div 5) (?ev @ b)" for b
    by (auto simp: submitted_def)
  show "\<exists>ev. trace (snd (?m s)) = trace s @ ev \<and> submitted c E (E + E div 5) ev"
  proof (cases "sendTransaction w (Suc (Suc (length (trace s)))) c ?p (E + E div 5)")
    case (Inl e)
    with run sub [of "[]"] show ?thesis by simp
  next
    case (Inr tx)
    from growsD [OF k, of ?p tx ?s3] obtain b where "trace (snd (k ?p tx ?s3)) = trace ?s3 @ b"
      by blast
    with run Inr sub [of b] show ?thesis by simp
  qed
qed

lemma connectWithMetamask_run:
  assumes "connected w g a"
  shows "\<exists>x s' ev. connectWithMetamask w s = (Inr x, s') \<and> trace s' = trace s @ ev
           \<and> signer s' = Some g"
  using assms
  by (simp add: connected_def answers_def session_defs io_defs split: sum.splits)

lemma joinDao_submits:
  assumes "connected w g a" "parseEther w amount = Inr v"
    "\<And>t. \<not> member_reply (addressToUser_call w t a)"
    "answers (\<lambda>t. estimateGas w t (Join v)) E"
  shows "submitted (Join v) E (E + E div 5) (new_effects s (joinDao w amount))"
  using assms
  by (simp add: run_defs joinDao_def split: sum.splits)

lemma createProposal_submits:
  assumes c: "connected w g a"
    and e: "answers (\<lambda>t. estimateGas w t (CreateProposal l p m sm)) E"
  shows "submitted (CreateProposal l p m sm) E (E + E div 5)
           (new_effects s (createProposal w l p m sm))"
proof -
  have "grows_from (\<lambda>_. True) (createProposal w l p m sm)
          (submitted (CreateProposal l p m sm) E (E + E div 5))"
    unfolding createProposal_def Let_def
    apply (rule grows_from_bnd [where J = "\<lambda>s. signer s = Some g"])
      apply (rule connectWithMetamask_run [OF c])
     apply (rule grows_from_bnd [where J = "\<lambda>s. True"])
       apply (simp add: getContract_def io_defs)
      apply (rule grows_from_weaken)
      apply (rule submitted_try)
       apply (rule submitted_estimate_bnd [OF e])
       apply (intro all_intros quiet_getCurrentAddress quiet_now_ms
          quiet_storeProposalInSupabase; simp)
      apply (rule all_throw)
     apply (erule submitted_append)+
    done
  then show ?thesis
    by (rule grows_from_new_effects) simp
qed

lemma voteProposal_submits:
  assumes "connected w g a" "answers (numProposal_call w) n" "1 \<le> pid" "pid \<le> int n"
    "\<And>t. member_reply (addressToUser_call w t a)"
    "answers (\<lambda>t. estimateGas w t (VoteProposal pid v)) E"
  shows "submitted (VoteProposal pid v) E (E + E div 5) (new_effects s (voteProposal w pid v))"
  using assms
  by (simp add: run_defs voteProposal_def split: sum.splits)

lemma executeProposal_submits:
  assumes "connected w g a" "answers (numProposal_call w) n" "1 \<le> pid" "pid \<le> int n"
    "answers (getFeeData w) fee"
    "answers (\<lambda>t. estimateGas w t (ExecuteProposal pid)) E"
  shows "submitted (ExecuteProposal pid) E (E + E div 5) (new_effects s (executeProposal w pid))"
  using assms
  by (simp add: run_defs executeProposal_def split: sum.splits)

lemma mintUSDC_submits:
  assumes "connected w g a" "answers (eth_chainId w) 127823"
    "answers (getFeeData w) fee"
    "answers (\<lambda>t. estimateGas w t (MintToSelf n)) E"
  shows "submitted (MintToSelf n) E (E + E div 5) (new_effects s (mintUSDC w n))"
  using assms
  by (simp add: run_defs mintUSDC_def getUSDCContract_def split: sum.splits)

lemma approveUSDC_submits:
  assumes "connected w g a" "answers (eth_chainId w) 127823"
    "answers (\<lambda>t. allowance_call w t a) al" "al < n"
    "answers (getFeeData w) fee"
    "answers (\<lambda>t. estimateGas w t (Approve n)) E"
  shows "submitted (Approve n) E (E + E div 5) (new_effects s (approveUSDC w n))"
  using assms
  by (simp add: run_defs approveUSDC_def getUSDCContract_def split: sum.splits)

lemma buyLot_submits_covered:
  assumes "connected w g a" "answers (eth_chainId w) 127823"
    "answers (\<lambda>t. balanceOf_call w t a) b" "n \<le> b"
    "answers (\<lambda>t. allowance_call w t a) al" "n \<le> al"
    "answers (getFeeData w) fee"
    "answers (\<lambda>t. estimateGas w t BuyLot) E"
  shows "submitted BuyLot E (E + E div 5) (new_effects s (buyLot w n))"
  using assms
  by (simp add: run_defs buyLot_def approveUSDC_def checkUSDCBalance_def getUSDCContract_def
      getReadOnlyUSDCContract_def split: sum.splits)

lemma buyLot_submits_approved:
  assumes "connected w g a" "answers (eth_chainId w) 127823"
    "answers (\<lambda>t. balanceOf_call w t a) b" "n \<le> b"
    "answers (\<lambda>t. allowance_call w t a) al" "al < n"
    "\<And>p l. answers (\<lambda>t. sendTransaction w t (Approve n) p l) atx"
    "answers (\<lambda>t. wait w t atx) r"
    "answers (getFeeData w) fee"
    "answers (\<lambda>t. estimateGas w t BuyLot) E"
  shows "submitted BuyLot E (E + E div 5) (new_effects s (buyLot w n))"
  using assms
  by (simp add: run_defs buyLot_def approveUSDC_def checkUSDCBalance_def getUSDCContract_def
      getReadOnlyUSDCContract_def split: sum.splits)

lemma str_includes_set: "str_includes hay needle \<Longrightarrow> set needle \<subseteq> set hay"
proof (induction hay)
  case Nil
  then show ?case by simp
next
  case (Cons c cs)
  then show ?case
    using set_mono_prefix [of needle "c # cs"] by auto
qed

lemma digits_set: "set (digits n) \<subseteq> set ''0123456789''"
proof (induction n rule: digits.induct)
  case (1 n)
  have d: "digit_char k \<in> set ''0123456789''" if "k < 10" for k
    unfolding digit_char_def using that nth_mem [of k "''0123456789''"] by simp
  show ?case
  proof (cases "n < 10")
    case True
    with d [of n] show ?thesis by (subst digits.simps) simp
  next
    case False
    with 1 d [of "n mod 10"] show ?thesis by (subst digits.simps) simp
  qed
qed

lemma toString_no_t: "CHR ''t'' \<notin> set (toString i)"
  using digits_set [of "nat i"] digits_set [of "nat (- i)"]
  by (auto simp: toString_def)

lemma Error_sel:
  "message (Error m) = m" "reason (Error m) = []" "shortMessage (Error m) = []"
  "code (Error m) = []" "data (Error m) = []" "error_message (Error m) = []"
  "data_message (Error m) = []" "info_error_message (Error m) = []"
  "instanceof_Error (Error m) = True"
  by (simp_all add: Error_def)

lemma vote_failure_keeps:
  "CHR ''t'' \<notin> set m \<Longrightarrow> m \<noteq> [] \<Longrightarrow> vote_failure (Error m) = Error m"
  using str_includes_set [of m "''could not coalesce''"]
  by (auto simp: vote_failure_def Error_sel)

lemma getProposalFromEvents_run: "getProposalFromEvents w pid c s = (Inr None, s)"
  by (simp add: getProposalFromEvents_def contract_provider_def io_defs)

lemma getProposal_run:
  "getProposal w pid s =
     (Inr None,
      s\<lparr> provider := Some (case provider s of None \<Rightarrow> JsonRpcProvider ETHERLINK_RPC | Some p \<Rightarrow> p),
         trace := trace s @ [Read ''idToProposal''] \<rparr>)"
  by (cases "provider s")
    (simp_all add: getProposal_def getProposalFromEvents_run idToProposal_call_def
      getReadOnlyContract_def io_defs)

subsection \<open>Runs of the mirror and of the page's loops\<close>

lemma setDaoMembership_run:
  "setDaoMembership w a v s =
     (Inr (\<not> supabase_error w (Suc (length (trace s)))),
      s\<lparr> dao_members :=
           (if supabase_error w (Suc (length (trace s))) then dao_members s
            else upsert wallet_address
                   \<lparr> wallet_address = toLowerCase a, is_member = v,
                     member_updated_at = Date_now w (length (trace s)) \<rparr> (dao_members s)),
         trace := trace s @ [DateNow, Supabase ''upsert dao_members''] \<rparr>)"
  by (simp add: setDaoMembership_def now_ms_def supabase_def io_defs Let_def)

lemma getDaoMembership_run:
  "getDaoMembership w a s =
     (Inr (\<not> supabase_error w (length (trace s)) \<and>
           (case filter (\<lambda>r. wallet_address r = toLowerCase a) (dao_members s) of
              [row] \<Rightarrow> is_member row | _ \<Rightarrow> False)),
      s\<lparr> trace := trace s @ [Supabase ''select dao_members''] \<rparr>)"
  by (simp add: getDaoMembership_def supabase_def io_defs Let_def split: list.splits)

lemma verify_loop_step_no:
  assumes "\<not> member_reply (addressToUser_call w (Suc (length (trace s))) a)"
  shows "verify_loop w a (Suc n) s =
           verify_loop w a n
             (s\<lparr> provider := Some (case provider s of None \<Rightarrow> JsonRpcProvider ETHERLINK_RPC
                                    | Some p \<Rightarrow> p),
                trace := trace s @ poll_round \<rparr>)"
  using assms by (simp add: isDaoMember_run io_defs poll_round_def)

lemma verify_loop_step_yes:
  assumes "member_reply (addressToUser_call w (Suc (length (trace s))) a)"
  shows "\<exists>rest. fst (verify_loop w a (Suc n) s) = Inr True
           \<and> trace (snd (verify_loop w a (Suc n) s)) = trace s @ poll_round @ rest
           \<and> list_all calm rest"
  using assms
  by (cases "a = []")
    (simp_all add: isDaoMember_run setDaoMembership_run io_defs poll_round_def calm_def)

lemma verify_loop_unverified:
  assumes no: "\<And>t. \<not> member_reply (addressToUser_call w t a)"
  shows "\<exists>s'. verify_loop w a n s = (Inr False, s')
           \<and> trace s' = trace s @ concat (replicate n poll_round)
           \<and> dao_members s' = dao_members s"
proof (induction n arbitrary: s)
  case 0
  then show ?case by (simp add: io_defs)
next
  case (Suc n)
  let ?s1 = "s\<lparr> provider := Some (case provider s of None \<Rightarrow> JsonRpcProvider ETHERLINK_RPC
                                    | Some p \<Rightarrow> p),
                trace := trace s @ poll_round \<rparr>"
  from Suc.IH [of ?s1] obtain s' where
    "verify_loop w a n ?s1 = (Inr False, s')"
    "trace s' = trace ?s1 @ concat (replicate n poll_round)"
    "dao_members s' = dao_members ?s1"
    by blast
  then show ?case
    by (simp add: verify_loop_step_no [OF no] del: verify_loop.simps)
qed

lemma verify_loop_polls:
  "\<exists>k rest. k \<le> n
      \<and> trace (snd (verify_loop w a n s)) = trace s @ concat (replicate k poll_round) @ rest
      \<and> list_all calm rest
      \<and> (fst (verify_loop w a n s) = Inr True \<or> fst (verify_loop w a n s) = Inr False)"
proof (induction n arbitrary: s)
  case 0
  have "0 \<le> (0::nat) \<and> trace (snd (verify_loop w a 0 s)) = trace s @ concat (replicate 0 poll_round) @ []
      \<and> list_all calm []
      \<and> (fst (verify_loop w a 0 s) = Inr True \<or> fst (verify_loop w a 0 s) = Inr False)"
    by (simp add: io_defs)
  then show ?case by blast
next
  case (Suc n)
  show ?case
  proof (cases "member_reply (addressToUser_call w (Suc (length (trace s))) a)")
    case True
    from verify_loop_step_yes [OF True, of n] obtain rest where
      r: "fst (verify_loop w a (Suc n) s) = Inr True"
         "trace (snd (verify_loop w a (Suc n) s)) = trace s @ poll_round @ rest"
         "list_all calm rest"
      by blast
    then have "Suc 0 \<le> Suc n
      \<and> trace (snd (verify_loop w a (Suc n) s)) = trace s @ concat (replicate (Suc 0) poll_round) @ rest
      \<and> list_all calm rest
      \<and> (fst (verify_loop w a (Suc n) s) = Inr True \<or> fst (verify_loop w a (Suc n) s) = Inr False)"
      by (simp del: verify_loop.simps)
    then show ?thesis by blast
  next
    case False
    let ?s1 = "s\<lparr> provider := Some (case provider s of None \<Rightarrow> JsonRpcProvider ETHERLINK_RPC
                                    | Some p \<Rightarrow> p),
                trace := trace s @ poll_round \<rparr>"
    from Suc.IH [of ?s1] obtain k rest where
      kr: "k \<le> n"
        "trace (snd (verify_loop w a n ?s1)) = trace ?s1 @ concat (replicate k poll_round) @ rest"
        "list_all calm rest"
        "fst (verify_loop w a n ?s1) = Inr True \<or> fst (verify_loop w a n ?s1) = Inr False"
      by blast
    then have "Suc k \<le> Suc n
      \<and> trace (snd (verify_loop w a (Suc n) s)) = trace s @ concat (replicate (Suc k) poll_round) @ rest
      \<and> list_all calm rest
      \<and> (fst (verify_loop w a (Suc n) s) = Inr True \<or> fst (verify_loop w a (Suc n) s) = Inr False)"
      by (simp add: verify_loop_step_no [OF False] del: verify_loop.simps)
    then show ?thesis by blast
  qed
qed

lemma verify_after_join_run:
  assumes a: "a \<noteq> []" and loop: "verify_loop w a 10 s = (Inr b, s1)"
  shows "verify_after_join w (Some a) s =
           (if b then (Inr (), s1)
            else (Inr (),
                  s1\<lparr> justJoinedRef := True, isMember_state := True,
                      dao_members :=
                        (if supabase_error w (Suc (length (trace s1))) then dao_members s1
                         else upsert wallet_address
                                \<lparr> wallet_address = toLowerCase a, is_member = True,
                                  member_updated_at = Date_now w (length (trace s1)) \<rparr>
                                (dao_members s1)),
                      trace := trace s1 @ [DateNow, Supabase ''upsert dao_members'',
                        Toast toast_success
                          ''Successfully joined the DAO! (Membership verification pending)''] \<rparr>))"
  using a loop
  by (simp add: verify_after_join_def present_def setDaoMembership_run io_defs)

subsection \<open>What the membership check leaves as it is\<close>

lemma stays_bnd: "stays I m \<Longrightarrow> (\<And>x. stays I (f x)) \<Longrightarrow> stays I (bnd m f)"
  by (auto simp: stays_def bnd_def split: prod.splits sum.splits)

lemma stays_try: "stays I m \<Longrightarrow> (\<And>e. stays I (h e)) \<Longrightarrow> stays I (try_catch m h)"
  by (auto simp: stays_def try_catch_def split: prod.splits sum.splits)

lemma stays_finally: "stays I m \<Longrightarrow> stays I f \<Longrightarrow> stays I (try_finally m f)"
  by (auto simp: stays_def try_finally_def split: prod.splits sum.splits)

lemma stays_ret: "stays I (ret x)" and stays_throw: "stays I (throw e)"
  and stays_gets: "stays I (gets g)"
  by (simp_all add: stays_def io_defs)

lemma stays_modify: "(\<And>s. I s \<Longrightarrow> I (f s)) \<Longrightarrow> stays I (modify f)"
  by (simp add: stays_def io_defs)

lemma stays_ask: "(\<And>s t. I s \<Longrightarrow> I (s\<lparr> trace := t \<rparr>)) \<Longrightarrow> stays I (ask a e)"
  by (simp add: stays_def io_defs)

lemma stays_if: "stays I a \<Longrightarrow> stays I b \<Longrightarrow> stays I (if c then a else b)"
  by simp

lemma stays_option:
  "stays I a \<Longrightarrow> (\<And>y. stays I (b y)) \<Longrightarrow> stays I (case x of None \<Rightarrow> a | Some y \<Rightarrow> b y)"
  by (cases x) simp_all

lemma stays_list:
  "stays I a \<Longrightarrow> (\<And>y ys. stays I (b y ys)) \<Longrightarrow> stays I (case x of [] \<Rightarrow> a | y # ys \<Rightarrow> b y ys)"
  by (cases x) simp_all

lemmas stays_intros = stays_bnd stays_try stays_finally stays_ret stays_throw stays_gets
  stays_modify stays_ask stays_if stays_option stays_list

lemma non_member_checkEtherlinkNetwork: "stays (\<lambda>s. \<not> isMember_state s) (checkEtherlinkNetwork w)"
  unfolding checkEtherlinkNetwork_def by (intro stays_intros; simp)

lemma non_member_initializeProvider: "stays (\<lambda>s. \<not> isMember_state s) (initializeProvider w)"
  unfolding initializeProvider_def
  by (intro stays_intros non_member_checkEtherlinkNetwork; simp)

lemma non_member_getCurrentAddress: "stays (\<lambda>s. \<not> isMember_state s) (getCurrentAddress w)"
  unfolding getCurrentAddress_def
  by (intro stays_intros non_member_initializeProvider; simp)

lemma check_membership_throws:
  assumes throws: "\<And>t. isl (addressToUser_call w t a)"
  shows "fst (check_membership w a s) = Inr ()"
    and "isMember_state (snd (check_membership w a s)) = False"
proof -
  have no: "member_reply (addressToUser_call w t a) = False" for t
    using throws [of t] by (cases "addressToUser_call w t a") (simp_all add: member_reply_def)
  show "fst (check_membership w a s) = Inr ()"
    and "isMember_state (snd (check_membership w a s)) = False"
    unfolding check_membership_def numeral_3_eq_3
    by (simp_all add: getDaoMembership_run isDaoMember_run setDaoMembership_run no io_defs)
qed

subsection \<open>The status of a mirror row\<close>


section \<open>Properties of the contract\<close>

text \<open>
  C2. Whenever \<open>executeProposal(id)\<close> is accepted, the storage after the call is the
  storage before it with the \<open>executed\<close> flag of the highest-numbered proposal
  (\<open>idToProposal[numProposal]\<close>) set, whatever \<open>id\<close> was: every other proposal, the one
  named by \<open>id\<close> included when it is not the latest, is left as it was. The argument is
  read only by the pre-check: the call is accepted exactly when the sender is a member and
  the proposal named by \<open>id\<close> is not yet executed.
\<close>

theorem Dao_executeProposal_targets_latest:
  "(Dao_executeProposal m pid s = Inr s' \<longrightarrow>
      s' = s\<lparr> idToProposal := (idToProposal s)(numProposal s :=
                 (idToProposal s (numProposal s))\<lparr> s_executed := True \<rparr>) \<rparr>
      \<and> s_executed (idToProposal s' (numProposal s))
      \<and> (\<forall>j. j \<noteq> numProposal s \<longrightarrow> idToProposal s' j = idToProposal s j))
   \<and> ((\<exists>t. Dao_executeProposal m pid s = Inr t) \<longleftrightarrow>
        (onlyMember m s \<and> \<not> s_executed (idToProposal s pid)))"
  by (auto simp: Dao_executeProposal_def)

theorem Dao_executeProposal_targets_latest_witness:
  "Dao_executeProposal \<lparr> sender = 1, val = 0 \<rparr> 1 two_proposals
     = Inr (two_proposals\<lparr> idToProposal := (idToProposal two_proposals)(2 :=
              (idToProposal two_proposals 2)\<lparr> s_executed := True \<rparr>) \<rparr>)
   \<and> s_executed (idToProposal (two_proposals\<lparr> idToProposal := (idToProposal two_proposals)(2 :=
              (idToProposal two_proposals 2)\<lparr> s_executed := True \<rparr>) \<rparr>) 2)
   \<and> \<not> s_executed (idToProposal (two_proposals\<lparr> idToProposal := (idToProposal two_proposals)(2 :=
              (idToProposal two_proposals 2)\<lparr> s_executed := True \<rparr>) \<rparr>) 1)"
proof -
  have run: "Dao_executeProposal \<lparr> sender = 1, val = 0 \<rparr> 1 two_proposals
     = Inr (two_proposals\<lparr> idToProposal := (idToProposal two_proposals)(2 :=
              (idToProposal two_proposals 2)\<lparr> s_executed := True \<rparr>) \<rparr>)"
    by (simp add: Dao_executeProposal_def onlyMember_def two_proposals_def deploy_def zero_Proposal_def)
  from Dao_executeProposal_targets_latest
         [of "\<lparr> sender = 1, val = 0 \<rparr>" 1 two_proposals
             "two_proposals\<lparr> idToProposal := (idToProposal two_proposals)(2 :=
                (idToProposal two_proposals 2)\<lparr> s_executed := True \<rparr>) \<rparr>"] run
  show ?thesis
    by (simp add: two_proposals_def deploy_def zero_Proposal_def)
qed

text \<open>
  C3. Every successful \<open>voteProposal(proposalId, vote)\<close> appends exactly one event,
  \<open>proposalVoted(numProposal, msg.sender)\<close>: its id is the current highest proposal id, not
  the \<open>proposalId\<close> voted on. The vote itself is recorded in the storage of \<open>proposalId\<close>
  (the sender's \<open>voted\<close> flag there is set). So when \<open>proposalId\<close> is not the latest
  proposal, the event names a proposal other than the one that received the vote.
\<close>

theorem Dao_voteProposal_event_names_latest:
  "Dao_voteProposal m block_timestamp pid vote s = Inr s' \<Longrightarrow>
     events s' = events s @ [proposalVoted (numProposal s) (sender m)]
     \<and> s_voted (idToProposal s' pid) (sender m)
     \<and> (pid \<noteq> numProposal s \<longrightarrow>
          last (events s') \<noteq> proposalVoted pid (sender m)
          \<and> idToProposal s' (numProposal s) = idToProposal s (numProposal s))"
  by (auto simp: Dao_voteProposal_def Let_def split: if_splits sum.splits)

theorem Dao_voteProposal_event_names_latest_witness:
  "(\<exists>s'. Dao_voteProposal \<lparr> sender = 1, val = 0 \<rparr> 2000 1 yay two_proposals = Inr s'
      \<and> events s' = events two_proposals @ [proposalVoted 2 1]
      \<and> s_voted (idToProposal s' 1) 1
      \<and> last (events s') \<noteq> proposalVoted 1 1
      \<and> idToProposal s' 2 = idToProposal two_proposals 2)"
proof -
  have ok: "\<exists>s'. Dao_voteProposal \<lparr> sender = 1, val = 0 \<rparr> 2000 1 yay two_proposals = Inr s'"
    by (simp add: Dao_voteProposal_def onlyMember_def two_proposals_def deploy_def
        zero_Proposal_def checked_add_def Let_def)
  then obtain s' where run: "Dao_voteProposal \<lparr> sender = 1, val = 0 \<rparr> 2000 1 yay two_proposals = Inr s'"
    by blast
  have n: "numProposal two_proposals = 2"
    by (simp add: two_proposals_def)
  from Dao_voteProposal_event_names_latest [OF run] n run show ?thesis
    by simp
qed
section \<open>Properties of the proposal mirror\<close>

text \<open>
  C10. On a table whose \<open>proposal_id\<close> column is a unique key (the key the upsert names in
  \<open>onConflict\<close>), two successful calls of \<open>storeProposalInSupabase\<close> with the same
  \<open>proposalId\<close> leave exactly one row with that id. Its columns are those of the second
  call (summary, terms, creator in lower case, deadline, transaction hash, zeroed votes,
  \<open>executed = false\<close>), and the rows of every other id are as they were before the two
  calls.
\<close>

theorem storeProposalInSupabase_twice:
  assumes key: "distinct (map proposal_id (dao_proposals s))"
    and first: "storeProposalInSupabase w pid l1 p1 m1 sum1 u1 d1 h1 s = (Inr True, s1)"
    and second: "storeProposalInSupabase w pid l2 p2 m2 sum2 u2 d2 h2 s1 = (Inr True, s2)"
  shows "\<exists>row. filter (\<lambda>r. proposal_id r = pid) (dao_proposals s2) = [row]
           \<and> proposal_summary row = sum2 \<and> lot_size row = l2 \<and> share_price row = p2
           \<and> max_per_investor row = m2 \<and> creator_address row = toLowerCase u2
           \<and> deadline_col row = d2 * 1000 \<and> transaction_hash row = h2
           \<and> yay_votes row = Some 0 \<and> nay_votes row = Some 0
           \<and> executed_col row = Some False
           \<and> filter (\<lambda>r. proposal_id r \<noteq> pid) (dao_proposals s2)
               = filter (\<lambda>r. proposal_id r \<noteq> pid) (dao_proposals s)"
proof -
  let ?r1 = "\<lparr> proposal_id = pid, lot_size = l1, share_price = p1, max_per_investor = m1,
        proposal_summary = sum1, creator_address = toLowerCase u1, deadline_col = d1 * 1000,
        transaction_hash = h1, yay_votes = Some 0, nay_votes = Some 0,
        executed_col = Some False, created_at = Date_now w (length (trace s)),
        updated_at = Date_now w (Suc (length (trace s))) \<rparr>"
  let ?r2 = "\<lparr> proposal_id = pid, lot_size = l2, share_price = p2, max_per_investor = m2,
        proposal_summary = sum2, creator_address = toLowerCase u2, deadline_col = d2 * 1000,
        transaction_hash = h2, yay_votes = Some 0, nay_votes = Some 0,
        executed_col = Some False, created_at = Date_now w (length (trace s1)),
        updated_at = Date_now w (Suc (length (trace s1))) \<rparr>"
  have t1: "dao_proposals s1 = upsert proposal_id ?r1 (dao_proposals s)"
    by (rule storeProposalInSupabase_True [OF first])
  have t2: "dao_proposals s2 = upsert proposal_id ?r2 (dao_proposals s1)"
    by (rule storeProposalInSupabase_True [OF second])
  have d1: "distinct (map proposal_id (dao_proposals s1))"
    unfolding t1 by (rule upsert_distinct [OF key])
  have one: "filter (\<lambda>r. proposal_id r = proposal_id ?r2) (dao_proposals s2) = [?r2]"
    unfolding t2 by (rule upsert_filter [OF d1])
  have "filter (\<lambda>r. proposal_id r \<noteq> proposal_id ?r2) (dao_proposals s2)
          = filter (\<lambda>r. proposal_id r \<noteq> proposal_id ?r2) (dao_proposals s1)"
    unfolding t2 by (rule upsert_others)
  also have "\<dots> = filter (\<lambda>r. proposal_id r \<noteq> proposal_id ?r1) (dao_proposals s1)"
    by simp
  also have "\<dots> = filter (\<lambda>r. proposal_id r \<noteq> proposal_id ?r1) (dao_proposals s)"
    unfolding t1 by (rule upsert_others)
  finally have rest: "filter (\<lambda>r. proposal_id r \<noteq> pid) (dao_proposals s2)
          = filter (\<lambda>r. proposal_id r \<noteq> pid) (dao_proposals s)"
    by simp
  from one rest show ?thesis
    by simp
qed

theorem storeProposalInSupabase_twice_witness:
  "\<exists>row. filter (\<lambda>r. proposal_id r = 1) (dao_proposals
       (snd (storeProposalInSupabase demo_world 1 2000 20 7 ''Test, reworded'' ''0xAbC'' 4000 ''0x02''
          (snd (storeProposalInSupabase demo_world 1 1000 10 5 ''Test'' ''0xAbC'' 3000 ''0x01''
             fresh_client))))) = [row]
     \<and> proposal_summary row = ''Test, reworded'' \<and> lot_size row = 2000 \<and> share_price row = 20
     \<and> max_per_investor row = 7 \<and> creator_address row = ''0xabc''
     \<and> deadline_col row = 4000000 \<and> transaction_hash row = ''0x02''
     \<and> yay_votes row = Some 0 \<and> nay_votes row = Some 0 \<and> executed_col row = Some False"
proof -
  let ?s1 = "snd (storeProposalInSupabase demo_world 1 1000 10 5 ''Test'' ''0xAbC'' 3000 ''0x01''
             fresh_client)"
  let ?s2 = "snd (storeProposalInSupabase demo_world 1 2000 20 7 ''Test, reworded'' ''0xAbC'' 4000
             ''0x02'' ?s1)"
  have key: "distinct (map proposal_id (dao_proposals fresh_client))"
    by (simp add: fresh_client_def)
  have "fst (storeProposalInSupabase demo_world 1 1000 10 5 ''Test'' ''0xAbC'' 3000 ''0x01''
             fresh_client) = Inr True"
    by (simp add: storeProposalInSupabase_def toISOString_def now_ms_def supabase_def io_defs
        demo_world_def fresh_client_def)
  then have first: "storeProposalInSupabase demo_world 1 1000 10 5 ''Test'' ''0xAbC'' 3000 ''0x01''
             fresh_client = (Inr True, ?s1)"
    by (simp add: prod_eq_iff)
  have "fst (storeProposalInSupabase demo_world 1 2000 20 7 ''Test, reworded'' ''0xAbC'' 4000
             ''0x02'' ?s1) = Inr True"
    by (simp add: storeProposalInSupabase_def toISOString_def now_ms_def supabase_def io_defs
        demo_world_def fresh_client_def)
  then have second: "storeProposalInSupabase demo_world 1 2000 20 7 ''Test, reworded'' ''0xAbC''
             4000 ''0x02'' ?s1 = (Inr True, ?s2)"
    by (simp add: prod_eq_iff)
  have lower: "toLowerCase ''0xAbC'' = ''0xabc''"
    by (simp add: toLowerCase_def lower_char_def)
  from storeProposalInSupabase_twice [OF key first second] lower show ?thesis
    by auto
qed

section \<open>Properties of the proposal reader\<close>

text \<open>
  C5, at a failing input. The event log of the node holds the \<open>proposalCreated\<close> entry of
  proposal 1 (block 10, whose timestamp is 1010), the struct read of proposal 1 throws
  \<open>could not decode result data\<close>, and the mirror is empty. \<open>getProposal(1)\<close> returns null:
  the struct read is its only effect, the log is never queried, since
  \<open>getProposalFromEvents\<close> finds no \<open>contract.provider\<close> and returns null at once. The
  claim expects a proposal with \<open>deadline = 1010 + 7 * 24 * 3600\<close>.
\<close>

theorem getProposal_event_fallback_returns_null:
  "queryFilter demo_world 1 = Inr [demo_log 1 10, demo_log 2 20]
   \<and> find (event_matches 1) [demo_log 1 10, demo_log 2 20] = Some (demo_log 1 10)
   \<and> getBlock demo_world 2 (blockNumber (demo_log 1 10)) = Inr (Some \<lparr> timestamp = 1010 \<rparr>)
   \<and> idToProposal_error demo_world 0 1 = Error ''could not decode result data''
   \<and> dao_proposals fresh_client = []
   \<and> fst (getProposal demo_world 1 fresh_client) = Inr None
   \<and> new_effects fresh_client (getProposal demo_world 1) = [Read ''idToProposal'']"
  by (simp add: getProposal_run new_effects_def event_matches_def demo_world_def
      demo_log_def fresh_client_def)



section \<open>Properties of the write actions\<close>

text \<open>
  C8. Let the wallet be present and grant the accounts, let the signer report the address
  \<open>a\<close>, let the amount parse, and let the contract answer every membership read for \<open>a\<close>
  with a value that decodes to member. Then \<open>joinDao\<close> throws the error
  \<open>You are already a member of the DAO\<close>, and the effects of the call are exactly the
  network check, the account request, the signer, its address and the one membership
  read: no gas estimate and no send.
\<close>

theorem joinDao_already_member:
  assumes wallet: "ethereum_present w"
    and approve: "\<And>t. eth_requestAccounts w t = Inr ()"
    and sg: "\<And>t. getSigner w t = Inr g"
    and addr: "\<And>t. getAddress w t g = Inr a" "a \<noteq> []"
    and amount: "parseEther w amount = Inr v"
    and member: "\<And>t. member_reply (addressToUser_call w t a)"
  shows "fst (joinDao w amount s) = Inl (Error ''You are already a member of the DAO'')
       \<and> new_effects s (joinDao w amount)
           = [Request ''eth_chainId'', Request ''eth_requestAccounts'', GetSigner, GetAddress,
              Read ''addressToUser'']"
  using assms
  by (simp add: joinDao_def session_defs isDaoMember_run new_effects_def io_defs
      split: sum.splits)

theorem joinDao_already_member_witness:
  "fst (joinDao demo_world ''0.1'' fresh_client) = Inl (Error ''You are already a member of the DAO'')
   \<and> new_effects fresh_client (joinDao demo_world ''0.1'')
       = [Request ''eth_chainId'', Request ''eth_requestAccounts'', GetSigner, GetAddress,
          Read ''addressToUser'']"
proof -
  have wallet: "ethereum_present demo_world"
    and approve: "\<And>t. eth_requestAccounts demo_world t = Inr ()"
    and sg: "\<And>t. getSigner demo_world t = Inr (JsonRpcSigner ''0xAbC'')"
    and addr: "\<And>t. getAddress demo_world t (JsonRpcSigner ''0xAbC'') = Inr ''0xAbC''"
    and amount: "parseEther demo_world ''0.1'' = Inr 100000000000000000"
    and member: "\<And>t. member_reply (addressToUser_call demo_world t ''0xAbC'')"
    by (simp_all add: demo_world_def member_reply_def decodeMembership_def)
  have ne: "''0xAbC'' \<noteq> []"
    by simp
  from joinDao_already_member [OF wallet approve sg addr ne amount member, of fresh_client]
  show ?thesis .
qed

text \<open>
  C7. Let the wallet be connected as above and let \<open>numProposal()\<close> answer \<open>n\<close>. For every
  \<open>proposalId\<close> below 1 or above \<open>n\<close> (so for 0 and for \<open>n + 1\<close>), \<open>voteProposal\<close> throws the
  range error \<open>Invalid proposalId ... numProposal is n.\<close>, and the effects of the call end
  with the read of \<open>numProposal\<close>: no gas estimate is made.
\<close>

theorem voteProposal_out_of_range:
  assumes wallet: "ethereum_present w"
    and approve: "\<And>t. eth_requestAccounts w t = Inr ()"
    and sg: "\<And>t. getSigner w t = Inr g"
    and addr: "\<And>t. getAddress w t g = Inr a" "a \<noteq> []"
    and total: "\<And>t. numProposal_call w t = Inr n"
    and range: "pid < 1 \<or> pid > int n"
  shows "fst (voteProposal w pid v s)
           = Inl (Error (''Invalid proposalId '' @ toString pid @ ''. On'' @ nb_hyphen @
                  ''chain numProposal is '' @ toString (int n) @ ''.''))
       \<and> new_effects s (voteProposal w pid v)
           = [Request ''eth_chainId'', Request ''eth_requestAccounts'', GetSigner, GetAddress,
              Read ''numProposal'']"
  using assms
  by (simp add: voteProposal_def session_defs new_effects_def io_defs Error_sel or_else_def
      vote_failure_keeps toString_no_t nb_hyphen_def split: sum.splits)

theorem voteProposal_out_of_range_witness:
  "fst (voteProposal demo_world 0 0 fresh_client)
     = Inl (Error (''Invalid proposalId 0. On'' @ nb_hyphen @ ''chain numProposal is 2.''))
   \<and> new_effects fresh_client (voteProposal demo_world 0 0)
       = [Request ''eth_chainId'', Request ''eth_requestAccounts'', GetSigner, GetAddress,
          Read ''numProposal'']
   \<and> fst (voteProposal demo_world 3 1 fresh_client)
     = Inl (Error (''Invalid proposalId 3. On'' @ nb_hyphen @ ''chain numProposal is 2.''))
   \<and> new_effects fresh_client (voteProposal demo_world 3 1)
       = [Request ''eth_chainId'', Request ''eth_requestAccounts'', GetSigner, GetAddress,
          Read ''numProposal'']"
proof -
  have wallet: "ethereum_present demo_world"
    and approve: "\<And>t. eth_requestAccounts demo_world t = Inr ()"
    and sg: "\<And>t. getSigner demo_world t = Inr (JsonRpcSigner ''0xAbC'')"
    and addr: "\<And>t. getAddress demo_world t (JsonRpcSigner ''0xAbC'') = Inr ''0xAbC''"
    and total: "\<And>t. numProposal_call demo_world t = Inr 2"
    by (simp_all add: demo_world_def)
  have ne: "''0xAbC'' \<noteq> []"
    by simp
  have low: "(0::int) < 1 \<or> 0 > int 2" and high: "(3::int) < 1 \<or> 3 > int 2"
    by simp_all
  have digits: "toString 0 = ''0''" "toString 3 = ''3''" "toString (int 2) = ''2''"
    by (simp_all add: toString_def digits.simps digit_char_def)
  from voteProposal_out_of_range [OF wallet approve sg addr ne total low, of 0 fresh_client]
       voteProposal_out_of_range [OF wallet approve sg addr ne total high, of 1 fresh_client]
       digits
  show ?thesis by simp
qed

section \<open>The gas limit of the write actions\<close>

text \<open>
  C9. The write actions that estimate gas are \<open>joinDao\<close>, \<open>createProposal\<close>,
  \<open>voteProposal\<close>, \<open>executeProposal\<close>, \<open>mintUSDC\<close>, \<open>approveUSDC\<close> and \<open>buyLot\<close> (\<open>withdraw\<close>
  makes no estimate and is not embedded).

  First part, in every world and from every state: each transaction an action sends
  comes with a gas estimate of the same call, and when that estimate succeeded with \<open>E\<close>
  the gas limit of the transaction is \<open>E + E div 5\<close>, that is \<open>E + floor(E / 5)\<close>, a
  function of the estimate alone.

  Second part, the transaction is sent. Let the wallet be connected, let the checks that
  the action makes before its estimate pass (the amount parses and the address is not
  yet a member, for \<open>joinDao\<close>; the id lies between 1 and \<open>numProposal()\<close>, and the
  address is a member, for \<open>voteProposal\<close>; the id is in that range, for
  \<open>executeProposal\<close>; the chain is Etherlink, for the token actions and \<open>buyLot\<close>; the
  allowance is short, for \<open>approveUSDC\<close>; the balance covers the amount, and the allowance
  covers it or the approval is sent and confirmed, for \<open>buyLot\<close>), let the fee data
  answer where the action does not catch its failure, and let the node answer the gas
  estimate of the call with \<open>E\<close>. Then the effects of the action hold that estimate and a
  send of the call with the gas limit \<open>E + E div 5\<close>.
\<close>

theorem write_actions_gas_buffered:
  "(gas_buffered (new_effects s (joinDao w amount))
    \<and> gas_buffered (new_effects s (createProposal w l p m sm))
    \<and> gas_buffered (new_effects s (voteProposal w pid v))
    \<and> gas_buffered (new_effects s (executeProposal w pid))
    \<and> gas_buffered (new_effects s (buyLot w n))
    \<and> gas_buffered (new_effects s (approveUSDC w n))
    \<and> gas_buffered (new_effects s (mintUSDC w n)))
   \<and> (connected w g a \<and> parseEther w amount = Inr wei
        \<and> (\<forall>t. \<not> member_reply (addressToUser_call w t a))
        \<and> answers (\<lambda>t. estimateGas w t (Join wei)) E
      \<longrightarrow> submitted (Join wei) E (E + E div 5) (new_effects s (joinDao w amount)))
   \<and> (connected w g a
        \<and> answers (\<lambda>t. estimateGas w t (CreateProposal l p m sm)) E
      \<longrightarrow> submitted (CreateProposal l p m sm) E (E + E div 5)
            (new_effects s (createProposal w l p m sm)))
   \<and> (connected w g a \<and> answers (numProposal_call w) num \<and> 1 \<le> pid \<and> pid \<le> int num
        \<and> (\<forall>t. member_reply (addressToUser_call w t a))
        \<and> answers (\<lambda>t. estimateGas w t (VoteProposal pid v)) E
      \<longrightarrow> submitted (VoteProposal pid v) E (E + E div 5) (new_effects s (voteProposal w pid v)))
   \<and> (connected w g a \<and> answers (numProposal_call w) num \<and> 1 \<le> pid \<and> pid \<le> int num
        \<and> answers (getFeeData w) fee
        \<and> answers (\<lambda>t. estimateGas w t (ExecuteProposal pid)) E
      \<longrightarrow> submitted (ExecuteProposal pid) E (E + E div 5) (new_effects s (executeProposal w pid)))
   \<and> (connected w g a \<and> answers (eth_chainId w) 127823 \<and> answers (getFeeData w) fee
        \<and> answers (\<lambda>t. estimateGas w t (MintToSelf n)) E
      \<longrightarrow> submitted (MintToSelf n) E (E + E div 5) (new_effects s (mintUSDC w n)))
   \<and> (connected w g a \<and> answers (eth_chainId w) 127823 \<and> answers (getFeeData w) fee
        \<and> answers (\<lambda>t. allowance_call w t a) al \<and> al < n
        \<and> answers (\<lambda>t. estimateGas w t (Approve n)) E
      \<longrightarrow> submitted (Approve n) E (E + E div 5) (new_effects s (approveUSDC w n)))
   \<and> (connected w g a \<and> answers (eth_chainId w) 127823 \<and> answers (getFeeData w) fee
        \<and> answers (\<lambda>t. balanceOf_call w t a) bal \<and> n \<le> bal
        \<and> answers (\<lambda>t. allowance_call w t a) al
        \<and> (n \<le> al
            \<or> (\<forall>gp gl. answers (\<lambda>t. sendTransaction w t (Approve n) gp gl) atx)
              \<and> answers (\<lambda>t. wait w t atx) rc)
        \<and> answers (\<lambda>t. estimateGas w t BuyLot) E
      \<longrightarrow> submitted BuyLot E (E + E div 5) (new_effects s (buyLot w n)))"
proof -
  have limit:
    "gas_buffered (new_effects s (joinDao w amount))
     \<and> gas_buffered (new_effects s (createProposal w l p m sm))
     \<and> gas_buffered (new_effects s (voteProposal w pid v))
     \<and> gas_buffered (new_effects s (executeProposal w pid))
     \<and> gas_buffered (new_effects s (buyLot w n))
     \<and> gas_buffered (new_effects s (approveUSDC w n))
     \<and> gas_buffered (new_effects s (mintUSDC w n))"
    by (intro conjI grows_new_effects joinDao_buffered createProposal_buffered
        voteProposal_buffered executeProposal_buffered buyLot_buffered mintUSDC_buffered
        approveUSDC_tidy [THEN tidy_grows_buffered])
  have join:
    "connected w g a \<and> parseEther w amount = Inr wei
       \<and> (\<forall>t. \<not> member_reply (addressToUser_call w t a))
       \<and> answers (\<lambda>t. estimateGas w t (Join wei)) E
     \<longrightarrow> submitted (Join wei) E (E + E div 5) (new_effects s (joinDao w amount))"
    by (clarify, rule joinDao_submits) auto
  have create:
    "connected w g a \<and> answers (\<lambda>t. estimateGas w t (CreateProposal l p m sm)) E
     \<longrightarrow> submitted (CreateProposal l p m sm) E (E + E div 5)
           (new_effects s (createProposal w l p m sm))"
    by (clarify, rule createProposal_submits)
  have vote:
    "connected w g a \<and> answers (numProposal_call w) num \<and> 1 \<le> pid \<and> pid \<le> int num
       \<and> (\<forall>t. member_reply (addressToUser_call w t a))
       \<and> answers (\<lambda>t. estimateGas w t (VoteProposal pid v)) E
     \<longrightarrow> submitted (VoteProposal pid v) E (E + E div 5) (new_effects s (voteProposal w pid v))"
    by (clarify, rule voteProposal_submits) auto
  have execute:
    "connected w g a \<and> answers (numProposal_call w) num \<and> 1 \<le> pid \<and> pid \<le> int num
       \<and> answers (getFeeData w) fee
       \<and> answers (\<lambda>t. estimateGas w t (ExecuteProposal pid)) E
     \<longrightarrow> submitted (ExecuteProposal pid) E (E + E div 5) (new_effects s (executeProposal w pid))"
    by (clarify, rule executeProposal_submits)
  have mint:
    "connected w g a \<and> answers (eth_chainId w) 127823 \<and> answers (getFeeData w) fee
       \<and> answers (\<lambda>t. estimateGas w t (MintToSelf n)) E
     \<longrightarrow> submitted (MintToSelf n) E (E + E div 5) (new_effects s (mintUSDC w n))"
    by (clarify, rule mintUSDC_submits)
  have approve:
    "connected w g a \<and> answers (eth_chainId w) 127823 \<and> answers (getFeeData w) fee
       \<and> answers (\<lambda>t. allowance_call w t a) al \<and> al < n
       \<and> answers (\<lambda>t. estimateGas w t (Approve n)) E
     \<longrightarrow> submitted (Approve n) E (E + E div 5) (new_effects s (approveUSDC w n))"
    by (clarify, rule approveUSDC_submits)
  have buy:
    "connected w g a \<and> answers (eth_chainId w) 127823 \<and> answers (getFeeData w) fee
       \<and> answers (\<lambda>t. balanceOf_call w t a) bal \<and> n \<le> bal
       \<and> answers (\<lambda>t. allowance_call w t a) al
       \<and> (n \<le> al
           \<or> (\<forall>gp gl. answers (\<lambda>t. sendTransaction w t (Approve n) gp gl) atx)
             \<and> answers (\<lambda>t. wait w t atx) rc)
       \<and> answers (\<lambda>t. estimateGas w t BuyLot) E
     \<longrightarrow> submitted BuyLot E (E + E div 5) (new_effects s (buyLot w n))"
  proof (clarify, cases "n \<le> al")
    case True
    assume "connected w g a" "answers (eth_chainId w) 127823" "answers (getFeeData w) fee"
      "answers (\<lambda>t. balanceOf_call w t a) bal" "n \<le> bal"
      "answers (\<lambda>t. allowance_call w t a) al" "answers (\<lambda>t. estimateGas w t BuyLot) E"
    with True show "submitted BuyLot E (E + E div 5) (new_effects s (buyLot w n))"
      by (intro buyLot_submits_covered)
  next
    case False
    assume "connected w g a" "answers (eth_chainId w) 127823" "answers (getFeeData w) fee"
      "answers (\<lambda>t. balanceOf_call w t a) bal" "n \<le> bal"
      "answers (\<lambda>t. allowance_call w t a) al" "answers (\<lambda>t. estimateGas w t BuyLot) E"
      "n \<le> al \<or> (\<forall>gp gl. answers (\<lambda>t. sendTransaction w t (Approve n) gp gl) atx)
                 \<and> answers (\<lambda>t. wait w t atx) rc"
    with False show "submitted BuyLot E (E + E div 5) (new_effects s (buyLot w n))"
      by (intro buyLot_submits_approved [where atx = atx and r = rc]) auto
  qed
  show ?thesis
    by (rule conjI [OF limit]) (intro conjI join create vote execute mint approve buy)
qed

lemmas demo_run_defs = session_defs isDaoMember_run new_effects_def io_defs
  estimate_def send_def gasPrice_or_def member_reply_def decodeMembership_def
  demo_world_def fresh_client_def Let_def

lemma demo_join:
  "new_effects fresh_client
     (joinDao (demo_world\<lparr> addressToUser_call := (\<lambda>_ _. Inr (Res_bool False)) \<rparr>) ''0.1'')
     = [Request ''eth_chainId'', Request ''eth_requestAccounts'', GetSigner, GetAddress,
        Read ''addressToUser'',
        EstimateGas (Join 100000000000000000) (Some 21004), GetFeeData,
        SendTx (Join 100000000000000000) 1000000000 25204]"
  by (simp add: joinDao_def demo_run_defs)

lemma demo_execute:
  "new_effects fresh_client (executeProposal demo_world 1)
     = [Request ''eth_chainId'', Request ''eth_requestAccounts'', GetSigner, GetAddress,
        Read ''numProposal'',
        EstimateGas (ExecuteProposal 1) (Some 21004), GetFeeData,
        SendTx (ExecuteProposal 1) 1000000000 25204]"
  by (simp add: executeProposal_def demo_run_defs)

lemma demo_vote:
  "new_effects fresh_client (voteProposal demo_world 1 0)
     = [Request ''eth_chainId'', Request ''eth_requestAccounts'', GetSigner, GetAddress,
        Read ''numProposal'', Read ''addressToUser'',
        EstimateGas (VoteProposal 1 0) (Some 21004), GetFeeData,
        SendTx (VoteProposal 1 0) 1000000000 25204]"
  by (simp add: voteProposal_def demo_run_defs)

theorem write_actions_gas_buffered_witness:
  "gas_buffered (new_effects fresh_client (voteProposal demo_world 1 0))
   \<and> submitted (Join 100000000000000000) 21004 25204
        (new_effects fresh_client
           (joinDao (demo_world\<lparr> addressToUser_call := (\<lambda>_ _. Inr (Res_bool False)) \<rparr>) ''0.1''))
   \<and> submitted (CreateProposal 1000 10 5 ''Test'') 21004 25204
        (new_effects fresh_client (createProposal demo_world 1000 10 5 ''Test''))
   \<and> submitted (VoteProposal 1 0) 21004 25204
        (new_effects fresh_client (voteProposal demo_world 1 0))
   \<and> submitted (ExecuteProposal 1) 21004 25204
        (new_effects fresh_client (executeProposal demo_world 1))
   \<and> submitted (MintToSelf 1000) 21004 25204 (new_effects fresh_client (mintUSDC demo_world 1000))
   \<and> submitted (Approve 1000) 21004 25204 (new_effects fresh_client (approveUSDC demo_world 1000))
   \<and> submitted BuyLot 21004 25204 (new_effects fresh_client (buyLot demo_world 1000))
   \<and> new_effects fresh_client (voteProposal demo_world 1 0)
     = [Request ''eth_chainId'', Request ''eth_requestAccounts'', GetSigner, GetAddress,
        Read ''numProposal'', Read ''addressToUser'',
        EstimateGas (VoteProposal 1 0) (Some 21004), GetFeeData,
        SendTx (VoteProposal 1 0) 1000000000 25204]
   \<and> new_effects fresh_client
       (joinDao (demo_world\<lparr> addressToUser_call := (\<lambda>_ _. Inr (Res_bool False)) \<rparr>) ''0.1'')
     = [Request ''eth_chainId'', Request ''eth_requestAccounts'', GetSigner, GetAddress,
        Read ''addressToUser'',
        EstimateGas (Join 100000000000000000) (Some 21004), GetFeeData,
        SendTx (Join 100000000000000000) 1000000000 25204]
   \<and> new_effects fresh_client (executeProposal demo_world 1)
     = [Request ''eth_chainId'', Request ''eth_requestAccounts'', GetSigner, GetAddress,
        Read ''numProposal'',
        EstimateGas (ExecuteProposal 1) (Some 21004), GetFeeData,
        SendTx (ExecuteProposal 1) 1000000000 25204]"
proof -
  let ?g = "JsonRpcSigner ''0xAbC''"
  let ?n = "demo_world\<lparr> addressToUser_call := (\<lambda>_ _. Inr (Res_bool False)) \<rparr>"
  note T = write_actions_gas_buffered [where s = fresh_client and g = ?g and a = "''0xAbC''"
      and E = 21004 and pid = 1 and v = 0 and num = 2 and n = 1000 and amount = "''0.1''"
      and wei = 100000000000000000 and l = 1000 and p = 10 and m = 5 and sm = "''Test''"
      and fee = "Some 1000000000" and al = 0 and bal = 5000000
      and atx = "\<lparr> tx_hash = ''0x01'' \<rparr>" and rc = "\<lparr> hash = ''0x01'', logs = [] \<rparr>"]
  have wallet: "connected demo_world ?g ''0xAbC''" "connected ?n ?g ''0xAbC''"
    by (simp_all add: connected_def answers_def demo_world_def)
  have member: "\<forall>t. member_reply (addressToUser_call demo_world t ''0xAbC'')"
    "\<forall>t. \<not> member_reply (addressToUser_call ?n t ''0xAbC'')"
    by (simp_all add: demo_world_def member_reply_def decodeMembership_def)
  have amount: "parseEther ?n ''0.1'' = Inr 100000000000000000"
    by (simp add: demo_world_def)
  have node: "answers (numProposal_call demo_world) 2"
    "answers (eth_chainId demo_world) 127823"
    "answers (getFeeData demo_world) (Some 1000000000)"
    "answers (\<lambda>t. balanceOf_call demo_world t ''0xAbC'') 5000000"
    "answers (\<lambda>t. allowance_call demo_world t ''0xAbC'') 0"
    "\<forall>gp gl. answers (\<lambda>t. sendTransaction demo_world t (Approve 1000) gp gl) \<lparr> tx_hash = ''0x01'' \<rparr>"
    "answers (\<lambda>t. wait demo_world t \<lparr> tx_hash = ''0x01'' \<rparr>) \<lparr> hash = ''0x01'', logs = [] \<rparr>"
    by (simp_all add: answers_def demo_world_def)
  have est: "answers (\<lambda>t. estimateGas demo_world t c) 21004"
    "answers (\<lambda>t. estimateGas ?n t c) 21004" for c
    by (simp_all add: answers_def demo_world_def)
  from T [where w = demo_world] wallet member node est
  have a: "gas_buffered (new_effects fresh_client (voteProposal demo_world 1 0))
     \<and> submitted (CreateProposal 1000 10 5 ''Test'') 21004 25204
        (new_effects fresh_client (createProposal demo_world 1000 10 5 ''Test''))
   \<and> submitted (VoteProposal 1 0) 21004 25204
        (new_effects fresh_client (voteProposal demo_world 1 0))
   \<and> submitted (ExecuteProposal 1) 21004 25204
        (new_effects fresh_client (executeProposal demo_world 1))
   \<and> submitted (MintToSelf 1000) 21004 25204 (new_effects fresh_client (mintUSDC demo_world 1000))
   \<and> submitted (Approve 1000) 21004 25204 (new_effects fresh_client (approveUSDC demo_world 1000))
   \<and> submitted BuyLot 21004 25204 (new_effects fresh_client (buyLot demo_world 1000))"
    by simp
  from T [where w = ?n] wallet member amount est
  have b: "submitted (Join 100000000000000000) 21004 25204
        (new_effects fresh_client (joinDao ?n ''0.1''))"
    by simp
  from a b show ?thesis
    by (simp add: demo_vote demo_join demo_execute)
qed
section \<open>Properties of the membership checks of the page\<close>

text \<open>
  C4. Let every membership read of the contract throw. Then \<open>isDaoMember\<close> returns
  \<open>false\<close>; the membership check of the page (the cached record first, then the contract
  with its retries) ends with the page's \<open>isMember\<close> set to \<open>false\<close>, whatever the mirror
  holds and so in particular when it holds no record for the address; and
  \<open>checkWalletAndMembership\<close> as a whole never turns a page that shows no membership into
  one that shows membership.
\<close>

theorem membership_fail_closed:
  assumes throws: "\<And>t x. isl (addressToUser_call w t x)"
  shows "fst (isDaoMember w a s) = Inr False
       \<and> fst (check_membership w a s) = Inr ()
       \<and> \<not> isMember_state (snd (check_membership w a s))
       \<and> (\<not> isMember_state s \<longrightarrow> \<not> isMember_state (snd (checkWalletAndMembership w s)))"
proof -
  have no: "member_reply (addressToUser_call w t x) = False" for t x
    using throws [of t x] by (cases "addressToUser_call w t x") (simp_all add: member_reply_def)
  have check: "stays (\<lambda>s. \<not> isMember_state s) (check_membership w x)" for x
    using check_membership_throws(2) [of w x, OF throws] by (simp add: stays_def)
  have "stays (\<lambda>s. \<not> isMember_state s) (checkWalletAndMembership w)"
    unfolding checkWalletAndMembership_def
    by (intro stays_intros non_member_checkEtherlinkNetwork non_member_initializeProvider
        non_member_getCurrentAddress check; simp)
  then have page: "\<not> isMember_state s \<longrightarrow> \<not> isMember_state (snd (checkWalletAndMembership w s))"
    by (simp add: stays_def)
  from check_membership_throws [of w a s, OF throws] page show ?thesis
    by (simp add: isDaoMember_run no)
qed

theorem membership_fail_closed_witness:
  "dao_members fresh_client = []
   \<and> fst (isDaoMember (demo_world\<lparr> addressToUser_call := (\<lambda>_ _. Inl (Error ''timeout'')) \<rparr>)
          ''0xAbC'' fresh_client) = Inr False
   \<and> fst (check_membership (demo_world\<lparr> addressToUser_call := (\<lambda>_ _. Inl (Error ''timeout'')) \<rparr>)
          ''0xAbC'' fresh_client) = Inr ()
   \<and> \<not> isMember_state (snd (check_membership
          (demo_world\<lparr> addressToUser_call := (\<lambda>_ _. Inl (Error ''timeout'')) \<rparr>)
          ''0xAbC'' fresh_client))
   \<and> \<not> isMember_state (snd (checkWalletAndMembership
          (demo_world\<lparr> addressToUser_call := (\<lambda>_ _. Inl (Error ''timeout'')) \<rparr>)
          fresh_client))"
proof -
  let ?w = "demo_world\<lparr> addressToUser_call := (\<lambda>_ _. Inl (Error ''timeout'')) \<rparr>"
  have throws: "\<And>t x. isl (addressToUser_call ?w t x)"
    by simp
  have start: "\<not> isMember_state fresh_client" "dao_members fresh_client = []"
    by (simp_all add: fresh_client_def)
  from membership_fail_closed [of ?w "''0xAbC''" fresh_client, OF throws] start
  show ?thesis by simp
qed

text \<open>
  C6. What follows the confirmation of the join transaction, for a known address \<open>a\<close>.
  In every world the effects are at most 10 rounds, each a delay of 2000 ms followed by
  one membership read, and after the rounds neither a read nor a delay. If no read
  verifies membership, the call still returns normally after exactly 10 rounds, the page
  shows membership, and the effects end with the upsert of the membership record with
  \<open>is_member = true\<close> and the success toast that says the verification is pending (no
  error toast is raised). When the store answers without error and \<open>wallet_address\<close> is a
  unique key of the table, the mirror then reports \<open>a\<close> as a member.
\<close>

theorem join_verification_bounded:
  assumes a: "a \<noteq> []"
  shows "(\<exists>k rest. k \<le> 10
            \<and> new_effects s (verify_after_join w (Some a)) = concat (replicate k poll_round) @ rest
            \<and> list_all calm rest)
       \<and> ((\<forall>t. \<not> member_reply (addressToUser_call w t a)) \<longrightarrow>
            fst (verify_after_join w (Some a) s) = Inr ()
          \<and> new_effects s (verify_after_join w (Some a))
              = concat (replicate 10 poll_round) @
                [DateNow, Supabase ''upsert dao_members'',
                 Toast toast_success
                   ''Successfully joined the DAO! (Membership verification pending)'']
          \<and> isMember_state (snd (verify_after_join w (Some a) s))
          \<and> justJoinedRef (snd (verify_after_join w (Some a) s))
          \<and> ((\<forall>t. \<not> supabase_error w t) \<and> distinct (map wallet_address (dao_members s)) \<longrightarrow>
               fst (getDaoMembership w a (snd (verify_after_join w (Some a) s))) = Inr True))"
proof (intro conjI impI)
  from verify_loop_polls [of 10 w a s] obtain k rest b where
    k: "k \<le> 10"
    and tr: "trace (snd (verify_loop w a 10 s)) = trace s @ concat (replicate k poll_round) @ rest"
    and calm: "list_all calm rest"
    and b: "fst (verify_loop w a 10 s) = Inr b"
    by blast
  from b have loop: "verify_loop w a 10 s = (Inr b, snd (verify_loop w a 10 s))"
    by (simp add: prod_eq_iff)
  let ?extra = "if b then [] else [DateNow, Supabase ''upsert dao_members'',
     Toast toast_success ''Successfully joined the DAO! (Membership verification pending)'']"
  have "new_effects s (verify_after_join w (Some a))
          = concat (replicate k poll_round) @ (rest @ ?extra)"
    by (simp add: new_effects_def verify_after_join_run [OF a loop] tr)
  moreover have "list_all calm (rest @ ?extra)"
    using calm by (simp add: calm_def)
  ultimately show "\<exists>k rest. k \<le> 10
            \<and> new_effects s (verify_after_join w (Some a)) = concat (replicate k poll_round) @ rest
            \<and> list_all calm rest"
    using k by blast
next
  assume no: "\<forall>t. \<not> member_reply (addressToUser_call w t a)"
  then have no': "\<And>t. \<not> member_reply (addressToUser_call w t a)"
    by blast
  from verify_loop_unverified [OF no', of 10 s] obtain s1 where
    loop: "verify_loop w a 10 s = (Inr False, s1)"
    and tr: "trace s1 = trace s @ concat (replicate 10 poll_round)"
    and dm: "dao_members s1 = dao_members s"
    by blast
  note run = verify_after_join_run [OF a loop]
  show "fst (verify_after_join w (Some a) s) = Inr ()"
    by (simp add: run)
  show "new_effects s (verify_after_join w (Some a))
              = concat (replicate 10 poll_round) @
                [DateNow, Supabase ''upsert dao_members'',
                 Toast toast_success
                   ''Successfully joined the DAO! (Membership verification pending)'']"
    by (simp add: run new_effects_def tr)
  show "isMember_state (snd (verify_after_join w (Some a) s))"
    by (simp add: run)
  show "justJoinedRef (snd (verify_after_join w (Some a) s))"
    by (simp add: run)
  assume "(\<forall>t. \<not> supabase_error w t) \<and> distinct (map wallet_address (dao_members s))"
  then have up: "\<And>t. \<not> supabase_error w t" and key: "distinct (map wallet_address (dao_members s))"
    by blast+
  let ?row = "\<lparr> wallet_address = toLowerCase a, is_member = True,
                 member_updated_at = Date_now w (length (trace s1)) \<rparr>"
  have "filter (\<lambda>r. wallet_address r = wallet_address ?row) (upsert wallet_address ?row (dao_members s))
          = [?row]"
    by (rule upsert_filter [OF key])
  then show "fst (getDaoMembership w a (snd (verify_after_join w (Some a) s))) = Inr True"
    by (simp add: run getDaoMembership_run up dm)
qed

theorem join_verification_bounded_witness:
  "fst (verify_after_join (demo_world\<lparr> addressToUser_call := (\<lambda>_ _. Inr (Res_bool False)) \<rparr>)
          (Some ''0xAbC'') fresh_client) = Inr ()
   \<and> new_effects fresh_client
          (verify_after_join (demo_world\<lparr> addressToUser_call := (\<lambda>_ _. Inr (Res_bool False)) \<rparr>)
             (Some ''0xAbC''))
        = concat (replicate 10 poll_round) @
          [DateNow, Supabase ''upsert dao_members'',
           Toast toast_success ''Successfully joined the DAO! (Membership verification pending)'']
   \<and> isMember_state (snd (verify_after_join
          (demo_world\<lparr> addressToUser_call := (\<lambda>_ _. Inr (Res_bool False)) \<rparr>)
          (Some ''0xAbC'') fresh_client))
   \<and> fst (getDaoMembership (demo_world\<lparr> addressToUser_call := (\<lambda>_ _. Inr (Res_bool False)) \<rparr>)
          ''0xAbC''
          (snd (verify_after_join
             (demo_world\<lparr> addressToUser_call := (\<lambda>_ _. Inr (Res_bool False)) \<rparr>)
             (Some ''0xAbC'') fresh_client))) = Inr True"
proof -
  let ?w = "demo_world\<lparr> addressToUser_call := (\<lambda>_ _. Inr (Res_bool False)) \<rparr>"
  have ne: "''0xAbC'' \<noteq> []"
    by simp
  have no: "\<forall>t. \<not> member_reply (addressToUser_call ?w t ''0xAbC'')"
    by (simp add: member_reply_def decodeMembership_def)
  have store: "(\<forall>t. \<not> supabase_error ?w t)
      \<and> distinct (map wallet_address (dao_members fresh_client))"
    by (simp add: demo_world_def fresh_client_def)
  from join_verification_bounded [OF ne, of fresh_client ?w] no store
  show ?thesis by blast
qed


end
